theory Spec2Isabelle
  imports Main "HOL-Library.Word"
begin

section \<open>Target machine parameters (machine.h)\<close>

definition SIZEOF_CHAR :: "64 word" where "SIZEOF_CHAR = 1"
definition SIZEOF_INT :: "64 word" where "SIZEOF_INT = 4"
definition SIZEOF_LONG :: "64 word" where "SIZEOF_LONG = 8"
definition SIZEOF_PTR :: "64 word" where "SIZEOF_PTR = 8"
definition SIZEOF_REG :: int where "SIZEOF_REG = 8"
definition NUM_PARAM_REGS :: nat where "NUM_PARAM_REGS = 6"
definition PARAM_ALIGNMENT :: int where "PARAM_ALIGNMENT = 8"
definition STACK_ALIGNMENT :: int where "STACK_ALIGNMENT = 16"

section \<open>Types (Type.h, Type.cpp)\<close>

text \<open>
  The class \<open>Type\<close> is a hand-written tagged union: \<open>_kind\<close> selects which of the
  other members are initialised and read.  An error type carries nothing, scalar types
  carry a specifier and the number of levels of indirection (an \<open>unsigned\<close>), array
  types also a length (an \<open>unsigned long\<close>), and function types also the pointee of
  \<open>_parameters\<close>: the variadic flag and the vector of parameter types.
\<close>

datatype specifier = CHAR_spec | INT_spec | LONG_spec

datatype declarator_kind = ARRAY | FUNCTION | SCALAR | ERROR

datatype type =
    Error_type
  | Scalar_type specifier "32 word"
  | Array_type specifier "32 word" "64 word"
  | Function_type specifier "32 word" bool "type list"

fun kind :: "type \<Rightarrow> declarator_kind" where
  "kind Error_type = ERROR"
| "kind (Scalar_type s n) = SCALAR"
| "kind (Array_type s n len) = ARRAY"
| "kind (Function_type s n v ts) = FUNCTION"

text \<open>
  \<open>Type::operator ==\<close>: different kinds are unequal, two error types are equal, then
  specifier and indirection are compared, then the length of arrays, then the variadic
  flag and the parameter vectors of functions (\<open>std::vector\<close>'s \<open>==\<close>: equal sizes
  and pairwise \<open>==\<close>).
\<close>

fun Type_eq :: "type \<Rightarrow> type \<Rightarrow> bool" where
  "Type_eq Error_type Error_type = True"
| "Type_eq (Scalar_type s n) (Scalar_type s' n') = (if s \<noteq> s' \<or> n \<noteq> n' then False else True)"
| "Type_eq (Array_type s n len) (Array_type s' n' len') =
     (if s \<noteq> s' \<or> n \<noteq> n' then False else len = len')"
| "Type_eq (Function_type s n v ts) (Function_type s' n' v' ts') =
     (if s \<noteq> s' \<or> n \<noteq> n' then False
      else if v \<noteq> v' then False
      else list_all2 Type_eq ts ts')"
| "Type_eq _ _ = False"

definition Type_ne :: "type \<Rightarrow> type \<Rightarrow> bool" where
  "Type_ne a b = (\<not> Type_eq a b)"

definition isScalar :: "type \<Rightarrow> bool" where
  "isScalar t = (kind t = SCALAR)"

definition isArray :: "type \<Rightarrow> bool" where
  "isArray t = (kind t = ARRAY)"

definition isFunction :: "type \<Rightarrow> bool" where
  "isFunction t = (kind t = FUNCTION)"

fun isNumeric :: "type \<Rightarrow> bool" where
  "isNumeric (Scalar_type s n) = (n = 0)"
| "isNumeric _ = False"

fun isPointer :: "type \<Rightarrow> bool" where
  "isPointer (Scalar_type s n) = (n > 0)"
| "isPointer _ = False"

definition isCompatibleWith :: "type \<Rightarrow> type \<Rightarrow> bool" where
  "isCompatibleWith this that =
     ((isNumeric this \<and> isNumeric that) \<or> (isScalar this \<and> Type_eq this that))"

fun Type_decay :: "type \<Rightarrow> type" where
  "Type_decay (Array_type s n len) = Scalar_type s (n + 1)"
| "Type_decay t = t"

fun Type_promote :: "type \<Rightarrow> type" where
  "Type_promote (Scalar_type s n) = (if n = 0 \<and> s = CHAR_spec then Scalar_type INT_spec 0 else Scalar_type s n)"
| "Type_promote t = t"

text \<open>\<open>Type::dereference\<close> asserts a pointer type; \<open>None\<close> is the failed assertion.\<close>

fun Type_dereference :: "type \<Rightarrow> type option" where
  "Type_dereference (Scalar_type s n) = (if n > 0 then Some (Scalar_type s (n - 1)) else None)"
| "Type_dereference _ = None"

text \<open>
  \<open>Type::size\<close> (allocator.cpp) asserts that the type is neither a function nor an
  error type; the product is computed in \<open>unsigned long\<close>, so it wraps modulo \<open>2^64\<close>.
\<close>

definition unit_size :: "specifier \<Rightarrow> 32 word \<Rightarrow> 64 word" where
  "unit_size s n =
     (if n > 0 then SIZEOF_PTR
      else if s = CHAR_spec then SIZEOF_CHAR
      else if s = INT_spec then SIZEOF_INT
      else SIZEOF_LONG)"

fun Type_size :: "type \<Rightarrow> 64 word option" where
  "Type_size Error_type = None"
| "Type_size (Function_type s n v ts) = None"
| "Type_size (Scalar_type s n) = Some (1 * unit_size s n)"
| "Type_size (Array_type s n len) = Some (len * unit_size s n)"

section \<open>Symbols and the abstract syntax tree (Symbol.h, Tree.h)\<close>

text \<open>
  A symbol has a name, a type and an offset; offset 0 means that no storage has been
  allocated yet.
\<close>

record symbol =
  name :: "string"
  stype :: "type"
  offset :: "int"

text \<open>
  Expressions.  Every class of Tree.h derived from \<open>Expression\<close> is a node kind; the
  unary and the binary classes differ only in their class tag, which is the first
  argument of \<open>Unary\<close> and \<open>Binary\<close>.  The last argument is the member \<open>_type\<close>; an
  identifier has the type of its symbol.
\<close>

datatype unop = Not_expr | Negate | Address | Dereference | Cast

datatype binop =
    Multiply | Divide | Remainder | Add | Subtract
  | LessThan | GreaterThan | LessOrEqual | GreaterOrEqual | Equal | NotEqual
  | LogicalAnd | LogicalOr

datatype expr =
    Number "64 word" type
  | String string type
  | Identifier symbol
  | Call symbol "expr list" type
  | Unary unop expr type
  | Binary binop expr expr type

datatype stmt =
    Simple expr
  | Assignment expr expr
  | Return expr
  | Break
  | While expr stmt
  | For stmt expr stmt stmt
  | If expr stmt "stmt option"
  | Block "symbol list" "stmt list"

fun type_of :: "expr \<Rightarrow> type" where
  "type_of (Number v t) = t"
| "type_of (String s t) = t"
| "type_of (Identifier symb) = stype symb"
| "type_of (Call symb args t) = t"
| "type_of (Unary opr e t) = t"
| "type_of (Binary opr l r t) = t"

text \<open>
  Modelled from the spec: the constructor \<open>Number(unsigned long)\<close> of Tree.cpp, which is
  not part of the sources at hand.  The spec has the literal built by \<open>cast\<close> from a
  value be ``a LONG Number of the same value''.
\<close>

definition new_Number :: "64 word \<Rightarrow> expr" where
  "new_Number v = Number v (Scalar_type LONG_spec 0)"

text \<open>
  Modelled from the spec: \<open>Expression::lvalue\<close> of Tree.cpp.  ``Each expression knows
  whether it is an lvalue (only Identifier with non-array type, and Dereference).''
\<close>

fun lvalue :: "expr \<Rightarrow> bool" where
  "lvalue (Identifier symb) = (\<not> isArray (stype symb))"
| "lvalue (Unary Dereference e t) = True"
| "lvalue _ = False"

section \<open>The state of the passes\<close>

text \<open>
  The passes work on variables of the process and on fields of the nodes and registers;
  they are collected here.  The messages reported so far stand for the diagnostic sink
  and its counter.
\<close>

type_synonym diagnostics = "(string \<times> string) list"

datatype reg =
    rax | rbx | rcx | rdx | rsi | rdi | r8 | r9 | r10 | r11 | r12 | r13 | r14 | r15

text \<open>
  The generator writes assembly text to \<open>cout\<close>, one instruction a line.  A line is kept
  as its opcode (with the size suffix) and its operands in the order written, without
  the white space between them.  An operand is a register name, a frame reference
  \<open>offset(%rbp)\<close>, an immediate \<open>$value\<close>, a global name, or nothing at all
  (\<open>String::operand\<close> writes nothing).
\<close>

datatype asm_operand =
    Reg string
  | Frame int
  | Imm int
  | Global string
  | Empty

datatype instr = Instr string "asm_operand list"

text \<open>
  An \<open>Expression *\<close> is the position of the node in the tree that is being generated
  (the path of child indices from the root) together with the node found there; two
  nodes of one tree are the same object exactly when their paths are equal.  The fields
  \<open>Expression::reg\<close> and \<open>Expression::offset\<close> of all nodes, the field \<open>Register::node\<close>
  of all registers, the generator's variable \<open>offset\<close> and the text written so far
  make the state.
\<close>

type_synonym path = "nat list"

type_synonym node_ref = "path \<times> expr"

record gen_state =
  node :: "reg \<Rightarrow> node_ref option"
  reg :: "path \<Rightarrow> reg option"
  expr_offset :: "path \<Rightarrow> int"
  gen_offset :: "int"
  out :: "instr list"

text \<open>
  The checker keeps the set \<open>defined\<close>, the outermost scope \<open>global\<close> and the scope
  \<open>current\<close>: the innermost of the scopes opened inside the global one, or the global
  scope itself when there is none.  A scope is the list of its symbols in the order of
  their insertion.
\<close>

record checker_state =
  defined :: "string set"
  global :: "symbol list"
  inner :: "symbol list list"
  diags :: "diagnostics"

section \<open>The semantic checker (checker.cpp)\<close>

definition error :: type where "error = Error_type"
definition character :: type where "character = Scalar_type CHAR_spec 0"
definition integer :: type where "integer = Scalar_type INT_spec 0"
definition longint :: type where "longint = Scalar_type LONG_spec 0"

text \<open>
  Modelled from the spec: \<open>report\<close> of the lexer, the diagnostic sink.  It records the
  message (its format and its argument) and thereby counts it: \<open>numerrors\<close> is the
  number of messages reported so far.
\<close>


definition report :: "string \<Rightarrow> string \<Rightarrow> diagnostics \<Rightarrow> diagnostics" where
  "report fmt arg ds = ds @ [(fmt, arg)]"

definition numerrors :: "diagnostics \<Rightarrow> nat" where
  "numerrors ds = length ds"

text \<open>
  The formats of the messages.  Four of them put the name between single quotes;
  \<open>CHR 0x27\<close> is the single quote.
\<close>

definition redefined :: string where
  "redefined = ''redefinition of '' @ [CHR 0x27] @ ''%s'' @ [CHR 0x27]"
definition redeclared :: string where
  "redeclared = ''redeclaration of '' @ [CHR 0x27] @ ''%s'' @ [CHR 0x27]"
definition conflicting :: string where
  "conflicting = ''conflicting types for '' @ [CHR 0x27] @ ''%s'' @ [CHR 0x27]"
definition undeclared :: string where
  "undeclared = [CHR 0x27] @ ''%s'' @ [CHR 0x27] @ '' undeclared''"
definition invalid_break :: string where "invalid_break = ''break statement not within loop''"
definition invalid_return :: string where "invalid_return = ''invalid return type''"
definition invalid_scalar :: string where "invalid_scalar = ''scalar type required in statement''"
definition invalid_lvalue :: string where "invalid_lvalue = ''lvalue required in expression''"
definition invalid_operands :: string where "invalid_operands = ''invalid operands to binary %s''"
definition invalid_operand :: string where "invalid_operand = ''invalid operand to unary %s''"
definition invalid_sizeof :: string where "invalid_sizeof = ''invalid operand in sizeof expression''"
definition invalid_cast :: string where "invalid_cast = ''invalid operand in cast expression''"
definition invalid_function :: string where "invalid_function = ''called object is not a function''"
definition invalid_arguments :: string where "invalid_arguments = ''invalid arguments to called function''"

subsection \<open>Conversions\<close>

text \<open>
  The conversions of checker.cpp take the slot that holds the expression by reference
  and overwrite it; here they return the expression that the slot holds afterwards.
\<close>

definition cast :: "expr \<Rightarrow> type \<Rightarrow> expr" where
  "cast expr ty =
     (let expr1 = (case expr of
                     Number v t \<Rightarrow>
                       if Type_eq (type_of expr) integer \<and> Type_eq ty longint
                       then new_Number v else expr
                   | _ \<Rightarrow> expr)
      in if Type_ne (type_of expr1) ty then Unary Cast expr1 ty else expr1)"

definition promote :: "expr \<Rightarrow> expr" where
  "promote expr = cast expr (Type_promote (type_of expr))"

definition decay :: "expr \<Rightarrow> expr" where
  "decay expr =
     (if isArray (type_of expr) then Unary Address expr (Type_decay (type_of expr))
      else expr)"

definition extend :: "expr \<Rightarrow> type \<Rightarrow> expr" where
  "extend expr ty =
     (let t = type_of expr
      in if (Type_eq t character \<or> Type_eq t integer) \<and> Type_eq ty longint
         then cast expr longint
         else promote expr)"

text \<open>
  \<open>scale\<close> takes the size as an \<open>unsigned\<close>; the product with the literal's value is
  computed in \<open>unsigned long\<close>.
\<close>

definition scale :: "expr \<Rightarrow> 32 word \<Rightarrow> expr" where
  "scale expr sz =
     (if sz = 1 then extend expr longint
      else case expr of
             Number v t \<Rightarrow> new_Number (v * ucast sz)
           | _ \<Rightarrow> Binary Multiply (extend expr longint) (new_Number (ucast sz)) longint)"

subsection \<open>Function calls\<close>

text \<open>
  The first loop of \<open>checkCall\<close> runs over the declared parameters.  An argument of
  error type is skipped; any other argument decays in place, must be compatible with
  its parameter and is then cast to the parameter's type.  The result is whether
  every argument passed, and the argument vector as the loop left it.
\<close>

function check_named :: "type list \<Rightarrow> nat \<Rightarrow> expr list \<Rightarrow> bool \<times> expr list" where
  "check_named types i args =
     (if i < length types then
        (if Type_ne (type_of (args ! i)) error then
           (let a = decay (args ! i); args1 = args[i := a]
            in if \<not> isCompatibleWith (types ! i) (type_of a) then (False, args1)
               else check_named types (i + 1) (args1[i := cast a (types ! i)]))
         else check_named types (i + 1) args)
      else (True, args))"
  by pat_completeness auto
termination
  by (relation "measure (\<lambda>(types, i, args). length types - i)") auto

declare check_named.simps [simp del]

text \<open>
  The second loop runs over the arguments after the declared parameters.  Its index
  advances only inside the test of an argument whose type is not the error type, so
  the loop does not leave an argument of error type: \<open>None\<close> is the loop running
  forever.
\<close>

partial_function (option) check_extras :: "nat \<Rightarrow> expr list \<Rightarrow> (bool \<times> expr list) option" where
  "check_extras i args =
     (if i < length args then
        (if Type_ne (type_of (args ! i)) error then
           (let a = decay (promote (args ! i)); args1 = args[i := a]
            in if \<not> isScalar (type_of a) then Some (False, args1)
               else check_extras (i + 1) args1)
         else check_extras i args)
      else Some (True, args))"

declare check_extras.simps [code]

definition checkCall :: "symbol \<Rightarrow> expr list \<Rightarrow> diagnostics \<Rightarrow> (expr \<times> diagnostics) option" where
  "checkCall ident args ds =
     (let t = stype ident; result = error
      in if Type_ne t error then
           (case t of
              Function_type s n variadic types \<Rightarrow>
                if length args < length types then
                  Some (Call ident args error, report invalid_arguments [] ds)
                else if \<not> variadic \<and> length args > length types then
                  Some (Call ident args error, report invalid_arguments [] ds)
                else
                  (case check_named types 0 args of
                     (False, args1) \<Rightarrow>
                       Some (Call ident args1 error, report invalid_arguments [] ds)
                   | (True, args1) \<Rightarrow>
                       (case check_extras (length types) args1 of
                          None \<Rightarrow> None
                        | Some (False, args2) \<Rightarrow>
                            Some (Call ident args2 error, report invalid_arguments [] ds)
                        | Some (True, args2) \<Rightarrow>
                            Some (Call ident args2 (Scalar_type s n), ds)))
            | _ \<Rightarrow> Some (Call ident args error, report invalid_function [] ds))
         else Some (Call ident args result, ds))"

subsection \<open>Unary and postfix operators\<close>

text \<open>\<open>t.dereference().size()\<close>, with both assertions.\<close>

definition dereference_size :: "type \<Rightarrow> 64 word option" where
  "dereference_size t =
     (case Type_dereference t of None \<Rightarrow> None | Some d \<Rightarrow> Type_size d)"

definition checkArray :: "expr \<Rightarrow> expr \<Rightarrow> diagnostics \<Rightarrow> (expr \<times> diagnostics) option" where
  "checkArray left right ds =
     (let left1 = decay (promote left); t1 = type_of left1;
          right1 = decay (extend right longint); t2 = type_of right1
      in if Type_ne t1 error \<and> Type_ne t2 error then
           (if isPointer t1 \<and> isNumeric t2 then
              (case (dereference_size t1, Type_dereference t1) of
                 (Some n, Some d) \<Rightarrow>
                   Some (Unary Dereference (Binary Add left1 (scale right1 (ucast n)) t1) d, ds)
               | _ \<Rightarrow> None)
            else Some (Unary Dereference (Binary Add left1 right1 t1) error,
                       report invalid_operands ''[]'' ds))
         else Some (Unary Dereference (Binary Add left1 right1 t1) error, ds))"

definition checkNot :: "expr \<Rightarrow> diagnostics \<Rightarrow> expr \<times> diagnostics" where
  "checkNot expr ds =
     (let expr1 = decay (promote expr); t = type_of expr1
      in if Type_ne t error then
           (if isScalar t then (Unary Not_expr expr1 integer, ds)
            else (Unary Not_expr expr1 error, report invalid_operand ''!'' ds))
         else (Unary Not_expr expr1 error, ds))"

definition checkNegate :: "expr \<Rightarrow> diagnostics \<Rightarrow> expr \<times> diagnostics" where
  "checkNegate expr ds =
     (let expr1 = decay (promote expr); t = type_of expr1
      in if Type_ne t error then
           (if isNumeric t then (Unary Negate expr1 t, ds)
            else (Unary Negate expr1 error, report invalid_operand ''-'' ds))
         else (Unary Negate expr1 error, ds))"

definition checkDereference :: "expr \<Rightarrow> diagnostics \<Rightarrow> (expr \<times> diagnostics) option" where
  "checkDereference expr ds =
     (let expr1 = decay expr; t = type_of expr1
      in if Type_ne t error then
           (if isPointer t then
              (case Type_dereference t of
                 Some d \<Rightarrow> Some (Unary Dereference expr1 d, ds)
               | None \<Rightarrow> None)
            else Some (Unary Dereference expr1 error, report invalid_operand ''*'' ds))
         else Some (Unary Dereference expr1 error, ds))"

text \<open>
  \<open>checkAddress\<close> reads specifier and indirection of the operand's type, which the
  class has for every type but the error type.
\<close>

definition checkAddress :: "expr \<Rightarrow> diagnostics \<Rightarrow> expr \<times> diagnostics" where
  "checkAddress expr ds =
     (let t = type_of expr
      in if Type_ne t error then
           (if lvalue expr then
              (case t of
                 Scalar_type s n \<Rightarrow> (Unary Address expr (Scalar_type s (n + 1)), ds)
               | Array_type s n len \<Rightarrow> (Unary Address expr (Scalar_type s (n + 1)), ds)
               | Function_type s n v ts \<Rightarrow> (Unary Address expr (Scalar_type s (n + 1)), ds)
               | Error_type \<Rightarrow> (Unary Address expr error, ds))
            else (Unary Address expr error, report invalid_lvalue [] ds))
         else (Unary Address expr error, ds))"

text \<open>
  \<open>checkSizeof\<close> keeps the size in an \<open>unsigned\<close> and builds the literal from it.
\<close>

definition checkSizeof :: "expr \<Rightarrow> diagnostics \<Rightarrow> (expr \<times> diagnostics) option" where
  "checkSizeof expr ds =
     (let t = type_of expr
      in if Type_ne t error then
           (if \<not> isFunction t then
              (case Type_size t of
                 Some n \<Rightarrow> Some (new_Number (ucast (ucast n :: 32 word)), ds)
               | None \<Rightarrow> None)
            else Some (new_Number 0, report invalid_sizeof [] ds))
         else Some (new_Number 0, ds))"

definition checkCast :: "type \<Rightarrow> expr \<Rightarrow> diagnostics \<Rightarrow> expr \<times> diagnostics" where
  "checkCast ty expr ds =
     (let expr1 = decay expr; t = type_of expr1
      in if Type_ne t error then
           (if isNumeric ty \<and> isNumeric t then (cast expr1 ty, ds)
            else if isPointer ty \<and> isPointer t then (cast expr1 ty, ds)
            else if isPointer ty \<and> Type_eq t longint then (cast expr1 ty, ds)
            else if Type_eq ty longint \<and> isPointer t then (cast expr1 ty, ds)
            else (cast expr1 error, report invalid_cast [] ds))
         else (cast expr1 error, ds))"

subsection \<open>Binary operators\<close>

text \<open>
  The private checks take both operand slots by reference; they return the two
  operands as converted, the result type and the diagnostics.
\<close>

definition checkMultiplicative ::
  "expr \<Rightarrow> expr \<Rightarrow> string \<Rightarrow> diagnostics \<Rightarrow> expr \<times> expr \<times> type \<times> diagnostics" where
  "checkMultiplicative left right opr ds =
     (let left1 = decay (extend left (type_of right)); t1 = type_of left1;
          right1 = decay (extend right (type_of left1)); t2 = type_of right1
      in if Type_ne t1 error \<and> Type_ne t2 error then
           (if isNumeric t1 \<and> isNumeric t2 then (left1, right1, t1, ds)
            else (left1, right1, error, report invalid_operands opr ds))
         else (left1, right1, error, ds))"

definition checkMultiply :: "expr \<Rightarrow> expr \<Rightarrow> diagnostics \<Rightarrow> expr \<times> diagnostics" where
  "checkMultiply left right ds =
     (case checkMultiplicative left right ''*'' ds of
        (left1, right1, t, ds1) \<Rightarrow> (Binary Multiply left1 right1 t, ds1))"

definition checkDivide :: "expr \<Rightarrow> expr \<Rightarrow> diagnostics \<Rightarrow> expr \<times> diagnostics" where
  "checkDivide left right ds =
     (case checkMultiplicative left right ''/'' ds of
        (left1, right1, t, ds1) \<Rightarrow> (Binary Divide left1 right1 t, ds1))"

definition checkRemainder :: "expr \<Rightarrow> expr \<Rightarrow> diagnostics \<Rightarrow> expr \<times> diagnostics" where
  "checkRemainder left right ds =
     (case checkMultiplicative left right ''%'' ds of
        (left1, right1, t, ds1) \<Rightarrow> (Binary Remainder left1 right1 t, ds1))"

definition checkAdd :: "expr \<Rightarrow> expr \<Rightarrow> diagnostics \<Rightarrow> (expr \<times> diagnostics) option" where
  "checkAdd left right ds =
     (let left1 = decay (extend left (type_of right)); t1 = type_of left1;
          right1 = decay (extend right (type_of left1)); t2 = type_of right1
      in if Type_ne t1 error \<and> Type_ne t2 error then
           (if isNumeric t1 \<and> isNumeric t2 then Some (Binary Add left1 right1 t1, ds)
            else if isPointer t1 \<and> isNumeric t2 then
              (case dereference_size t1 of
                 Some n \<Rightarrow> Some (Binary Add left1 (scale right1 (ucast n)) t1, ds)
               | None \<Rightarrow> None)
            else if isNumeric t1 \<and> isPointer t2 then
              (case dereference_size t2 of
                 Some n \<Rightarrow> Some (Binary Add (scale left1 (ucast n)) right1 t2, ds)
               | None \<Rightarrow> None)
            else Some (Binary Add left1 right1 error, report invalid_operands ''+'' ds))
         else Some (Binary Add left1 right1 error, ds))"

text \<open>
  \<open>checkSubtract\<close> first fixes the operands and the result type, builds the
  \<open>Subtract\<close> node, and then wraps it in a \<open>Divide\<close> by the element size when the two
  converted types are equal pointer types.  The source holds \<open>t1\<close> and \<open>t2\<close> as
  references to the types of the converted operands and tests them again after
  \<open>scale\<close> has replaced the right operand; \<open>t2\<close> is read here as the type the
  converted right operand had when the reference was taken.
\<close>

definition subtract_operands ::
  "expr \<Rightarrow> expr \<Rightarrow> expr \<times> expr" where
  "subtract_operands left right =
     (let left1 = decay (extend left (type_of right));
          right1 = decay (extend right (type_of left1))
      in (left1, right1))"

definition checkSubtract :: "expr \<Rightarrow> expr \<Rightarrow> diagnostics \<Rightarrow> (expr \<times> diagnostics) option" where
  "checkSubtract left right ds =
     (case subtract_operands left right of
        (left1, right1) \<Rightarrow>
          (let t1 = type_of left1; t2 = type_of right1;
               checked =
                 (if Type_ne t1 error \<and> Type_ne t2 error then
                    (if isNumeric t1 \<and> isNumeric t2 then Some (right1, t1, ds)
                     else if isPointer t1 \<and> Type_eq t1 t2 then Some (right1, longint, ds)
                     else if isPointer t1 \<and> isNumeric t2 then
                       (case dereference_size t1 of
                          Some n \<Rightarrow> Some (scale right1 (ucast n), t1, ds)
                        | None \<Rightarrow> None)
                     else Some (right1, error, report invalid_operands ''-'' ds))
                  else Some (right1, error, ds))
           in case checked of
                None \<Rightarrow> None
              | Some (right2, result, ds1) \<Rightarrow>
                  (let expr = Binary Subtract left1 right2 result
                   in if isPointer t1 \<and> Type_eq t1 t2 then
                        (case dereference_size t1 of
                           Some n \<Rightarrow> Some (Binary Divide expr (new_Number n) longint, ds1)
                         | None \<Rightarrow> None)
                      else Some (expr, ds1))))"

definition checkComparative ::
  "expr \<Rightarrow> expr \<Rightarrow> string \<Rightarrow> diagnostics \<Rightarrow> expr \<times> expr \<times> type \<times> diagnostics" where
  "checkComparative left right opr ds =
     (let left1 = decay (extend left (type_of right)); t1 = type_of left1;
          right1 = decay (extend right (type_of left1)); t2 = type_of right1
      in if Type_ne t1 error \<and> Type_ne t2 error then
           (if isCompatibleWith t1 t2 then (left1, right1, integer, ds)
            else (left1, right1, error, report invalid_operands opr ds))
         else (left1, right1, error, ds))"

definition checkLessThan :: "expr \<Rightarrow> expr \<Rightarrow> diagnostics \<Rightarrow> expr \<times> diagnostics" where
  "checkLessThan left right ds =
     (case checkComparative left right ''<'' ds of
        (left1, right1, t, ds1) \<Rightarrow> (Binary LessThan left1 right1 t, ds1))"

definition checkGreaterThan :: "expr \<Rightarrow> expr \<Rightarrow> diagnostics \<Rightarrow> expr \<times> diagnostics" where
  "checkGreaterThan left right ds =
     (case checkComparative left right ''>'' ds of
        (left1, right1, t, ds1) \<Rightarrow> (Binary GreaterThan left1 right1 t, ds1))"

definition checkLessOrEqual :: "expr \<Rightarrow> expr \<Rightarrow> diagnostics \<Rightarrow> expr \<times> diagnostics" where
  "checkLessOrEqual left right ds =
     (case checkComparative left right ''<='' ds of
        (left1, right1, t, ds1) \<Rightarrow> (Binary LessOrEqual left1 right1 t, ds1))"

definition checkGreaterOrEqual :: "expr \<Rightarrow> expr \<Rightarrow> diagnostics \<Rightarrow> expr \<times> diagnostics" where
  "checkGreaterOrEqual left right ds =
     (case checkComparative left right ''>='' ds of
        (left1, right1, t, ds1) \<Rightarrow> (Binary GreaterOrEqual left1 right1 t, ds1))"

definition checkEqual :: "expr \<Rightarrow> expr \<Rightarrow> diagnostics \<Rightarrow> expr \<times> diagnostics" where
  "checkEqual left right ds =
     (case checkComparative left right ''=='' ds of
        (left1, right1, t, ds1) \<Rightarrow> (Binary Equal left1 right1 t, ds1))"

definition checkNotEqual :: "expr \<Rightarrow> expr \<Rightarrow> diagnostics \<Rightarrow> expr \<times> diagnostics" where
  "checkNotEqual left right ds =
     (case checkComparative left right ''!='' ds of
        (left1, right1, t, ds1) \<Rightarrow> (Binary NotEqual left1 right1 t, ds1))"

definition checkLogical ::
  "expr \<Rightarrow> expr \<Rightarrow> string \<Rightarrow> diagnostics \<Rightarrow> expr \<times> expr \<times> type \<times> diagnostics" where
  "checkLogical left right opr ds =
     (let left1 = decay (promote left); t1 = type_of left1;
          right1 = decay (promote right); t2 = type_of right1
      in if Type_ne t1 error \<and> Type_ne t2 error then
           (if isScalar t1 \<and> isScalar t2 then (left1, right1, integer, ds)
            else (left1, right1, error, report invalid_operands opr ds))
         else (left1, right1, error, ds))"

definition checkLogicalAnd :: "expr \<Rightarrow> expr \<Rightarrow> diagnostics \<Rightarrow> expr \<times> diagnostics" where
  "checkLogicalAnd left right ds =
     (case checkLogical left right ''&&'' ds of
        (left1, right1, t, ds1) \<Rightarrow> (Binary LogicalAnd left1 right1 t, ds1))"

definition checkLogicalOr :: "expr \<Rightarrow> expr \<Rightarrow> diagnostics \<Rightarrow> expr \<times> diagnostics" where
  "checkLogicalOr left right ds =
     (case checkLogical left right ''||'' ds of
        (left1, right1, t, ds1) \<Rightarrow> (Binary LogicalOr left1 right1 t, ds1))"

subsection \<open>Statements\<close>

definition checkTest :: "expr \<Rightarrow> diagnostics \<Rightarrow> expr \<times> diagnostics" where
  "checkTest expr ds =
     (let expr1 = decay (promote expr); t = type_of expr1
      in if Type_ne t error \<and> \<not> isScalar t then (expr1, report invalid_scalar [] ds)
         else (expr1, ds))"

definition checkAssignment :: "expr \<Rightarrow> expr \<Rightarrow> diagnostics \<Rightarrow> stmt \<times> diagnostics" where
  "checkAssignment left right ds =
     (let t1 = type_of left; right1 = decay right; t2 = type_of right1
      in if Type_ne t1 error \<and> Type_ne t2 error then
           (if \<not> lvalue left then (Assignment left right1, report invalid_lvalue [] ds)
            else if \<not> isCompatibleWith t1 t2 then
              (Assignment left right1, report invalid_operands ''='' ds)
            else (Assignment left (cast right1 (type_of left)), ds))
         else (Assignment left right1, ds))"

definition checkReturn :: "expr \<Rightarrow> type \<Rightarrow> diagnostics \<Rightarrow> stmt \<times> diagnostics" where
  "checkReturn expr ty ds =
     (let expr1 = decay expr; t = type_of expr1
      in if Type_ne t error then
           (if isCompatibleWith t ty then (Return (cast expr1 ty), ds)
            else (Return expr1, report invalid_return [] ds))
         else (Return expr1, ds))"

definition checkBreak :: "nat \<Rightarrow> diagnostics \<Rightarrow> stmt \<times> diagnostics" where
  "checkBreak depth ds =
     (if depth = 0 then (Break, report invalid_break [] ds) else (Break, ds))"

section \<open>Storage allocation (allocator.cpp)\<close>

text \<open>
  Offsets are \<open>int\<close>s.  Where the source adds or subtracts a size, an
  \<open>unsigned long\<close>, the sum is computed in \<open>unsigned long\<close> and stored back into the
  \<open>int\<close>: \<open>int32\<close> is that conversion.  \<open>c_rem\<close> is the remainder operator of C,
  whose result has the sign of the dividend.
\<close>

definition int32 :: "int \<Rightarrow> int" where
  "int32 x = (x + 2 ^ 31) mod 2 ^ 32 - 2 ^ 31"

definition c_rem :: "int \<Rightarrow> int \<Rightarrow> int" where
  "c_rem a b = sgn a * (\<bar>a\<bar> mod \<bar>b\<bar>)"

datatype func = Function symbol stmt

text \<open>The loop over the symbols of a block: a symbol with offset 0 gets the next slot.\<close>

fun allocate_symbols :: "symbol list \<Rightarrow> int \<Rightarrow> (symbol list \<times> int) option" where
  "allocate_symbols [] off = Some ([], off)"
| "allocate_symbols (symb # symbols) off =
     (if offset symb = 0 then
        (case Type_size (stype symb) of
           None \<Rightarrow> None
         | Some n \<Rightarrow>
             (let off1 = int32 (off - uint n)
              in case allocate_symbols symbols off1 of
                   None \<Rightarrow> None
                 | Some (symbols1, off2) \<Rightarrow> Some (symb\<lparr>offset := off1\<rparr> # symbols1, off2)))
      else
        (case allocate_symbols symbols off of
           None \<Rightarrow> None
         | Some (symbols1, off2) \<Rightarrow> Some (symb # symbols1, off2)))"

text \<open>
  \<open>Block::allocate\<close>, \<open>While::allocate\<close>, \<open>For::allocate\<close> and \<open>If::allocate\<close>.  The
  symbols live in the scope of their block, so the block is returned with the offsets
  written into it.  \<open>allocate_stmts\<close> is the loop over the statements of a block, with
  \<open>saved\<close> and the running minimum.

  Modelled from the spec: \<open>Statement::allocate\<close> of Tree.cpp, which the other
  statements inherit: ``Other statements do nothing.''
\<close>

fun allocate :: "stmt \<Rightarrow> int \<Rightarrow> (stmt \<times> int) option"
  and allocate_stmts :: "stmt list \<Rightarrow> int \<Rightarrow> int \<Rightarrow> (stmt list \<times> int) option" where
  "allocate (Block decls stmts) off =
     (case allocate_symbols decls off of
        None \<Rightarrow> None
      | Some (decls1, off1) \<Rightarrow>
          (case allocate_stmts stmts off1 off1 of
             None \<Rightarrow> None
           | Some (stmts1, off2) \<Rightarrow> Some (Block decls1 stmts1, off2)))"
| "allocate (While e body) off =
     (case allocate body off of
        None \<Rightarrow> None
      | Some (body1, off1) \<Rightarrow> Some (While e body1, off1))"
| "allocate (For init e incr body) off =
     (case allocate body off of
        None \<Rightarrow> None
      | Some (body1, off1) \<Rightarrow> Some (For init e incr body1, off1))"
| "allocate (If e thenStmt None) off =
     (case allocate thenStmt off of
        None \<Rightarrow> None
      | Some (then1, off1) \<Rightarrow> Some (If e then1 None, off1))"
| "allocate (If e thenStmt (Some elseStmt)) off =
     (case allocate thenStmt off of
        None \<Rightarrow> None
      | Some (then1, off1) \<Rightarrow>
          (case allocate elseStmt off of
             None \<Rightarrow> None
           | Some (else1, temp) \<Rightarrow> Some (If e then1 (Some else1), min off1 temp)))"
| "allocate (Simple e) off = Some (Simple e, off)"
| "allocate (Assignment l r) off = Some (Assignment l r, off)"
| "allocate (Return e) off = Some (Return e, off)"
| "allocate Break off = Some (Break, off)"
| "allocate_stmts [] saved off = Some ([], off)"
| "allocate_stmts (s # ss) saved off =
     (case allocate s saved of
        None \<Rightarrow> None
      | Some (s1, temp) \<Rightarrow>
          (case allocate_stmts ss saved (min off temp) of
             None \<Rightarrow> None
           | Some (ss1, off1) \<Rightarrow> Some (s1 # ss1, off1)))"

text \<open>\<open>while (offset % PARAM_ALIGNMENT != 0) offset ++;\<close>\<close>

function param_align :: "int \<Rightarrow> int" where
  "param_align off = (if c_rem off PARAM_ALIGNMENT \<noteq> 0 then param_align (off + 1) else off)"
  by pat_completeness auto
termination
proof (relation "measure (\<lambda>off. nat ((- off) mod 8))")
  show "wf (measure (\<lambda>off. nat ((- off) mod 8)))" by simp
next
  fix off :: int
  assume "c_rem off PARAM_ALIGNMENT \<noteq> 0"
  then have "off mod 8 \<noteq> 0"
    by (auto simp: c_rem_def PARAM_ALIGNMENT_def sgn_if split: if_splits)
  then have "(- (off + 1)) mod 8 < (- off) mod 8" by presburger
  then show "(off + 1, off) \<in> measure (\<lambda>off. nat ((- off) mod 8))" by simp
qed

declare param_align.simps [simp del]

text \<open>
  The two loops of \<open>Function::allocate\<close> over the parameters.  \<open>symbols[i]\<close> is read
  without a check; \<open>None\<close> is the read outside the vector, or the failed assertion of
  \<open>Type::size\<close>.
\<close>

function stack_params :: "type list \<Rightarrow> nat \<Rightarrow> symbol list \<Rightarrow> int \<Rightarrow> (symbol list \<times> int) option" where
  "stack_params types i symbols off =
     (if i < length types then
        (if i < length symbols then
           (case Type_size (types ! i) of
              None \<Rightarrow> None
            | Some n \<Rightarrow>
                stack_params types (i + 1) (symbols[i := (symbols ! i)\<lparr>offset := off\<rparr>])
                  (param_align (int32 (off + uint n))))
         else None)
      else Some (symbols, off))"
  by pat_completeness auto
termination
  by (relation "measure (\<lambda>(types, i, symbols, off). length types - i)") auto

declare stack_params.simps [simp del]

function reg_params :: "type list \<Rightarrow> nat \<Rightarrow> symbol list \<Rightarrow> int \<Rightarrow> (symbol list \<times> int) option" where
  "reg_params types i symbols off =
     (if i < NUM_PARAM_REGS then
        (if i < length types then
           (if i < length symbols then
              (case Type_size (types ! i) of
                 None \<Rightarrow> None
               | Some n \<Rightarrow>
                   (let off1 = int32 (off - uint n)
                    in reg_params types (i + 1) (symbols[i := (symbols ! i)\<lparr>offset := off1\<rparr>]) off1))
            else None)
         else Some (symbols, off))
      else Some (symbols, off))"
  by pat_completeness auto
termination
  by (relation "measure (\<lambda>(types, i, symbols, off). NUM_PARAM_REGS - i)") auto

declare reg_params.simps [simp del]

text \<open>
  \<open>Function::allocate\<close>.  The parameter types are those of the function's symbol
  (\<open>Type::parameters\<close> asserts a function type); the symbols are those of the body.
\<close>

fun Function_allocate :: "func \<Rightarrow> int \<Rightarrow> (func \<times> int) option" where
  "Function_allocate (Function ident (Block decls stmts)) off =
     (case stype ident of
        Function_type s n v types \<Rightarrow>
          (case stack_params types NUM_PARAM_REGS decls off of
             None \<Rightarrow> None
           | Some (symbols1, off1) \<Rightarrow>
               (case reg_params types 0 symbols1 0 of
                  None \<Rightarrow> None
                | Some (symbols2, off2) \<Rightarrow>
                    (case allocate (Block symbols2 stmts) off2 of
                       None \<Rightarrow> None
                     | Some (body1, off3) \<Rightarrow> Some (Function ident body1, off3))))
      | _ \<Rightarrow> None)"
| "Function_allocate (Function ident body) off = None"

section \<open>The code generator (generator.cpp)\<close>

subsection \<open>Registers and emitted instructions\<close>


text \<open>The three names each \<open>Register\<close> is constructed with.\<close>

fun qword :: "reg \<Rightarrow> string" where
  "qword rax = ''%rax''" | "qword rbx = ''%rbx''" | "qword rcx = ''%rcx''"
| "qword rdx = ''%rdx''" | "qword rsi = ''%rsi''" | "qword rdi = ''%rdi''"
| "qword r8 = ''%r8''" | "qword r9 = ''%r9''" | "qword r10 = ''%r10''"
| "qword r11 = ''%r11''" | "qword r12 = ''%r12''" | "qword r13 = ''%r13''"
| "qword r14 = ''%r14''" | "qword r15 = ''%r15''"

fun lword :: "reg \<Rightarrow> string" where
  "lword rax = ''%eax''" | "lword rbx = ''%ebx''" | "lword rcx = ''%ecx''"
| "lword rdx = ''%edx''" | "lword rsi = ''%esi''" | "lword rdi = ''%edi''"
| "lword r8 = ''%r8d''" | "lword r9 = ''%r9d''" | "lword r10 = ''%r10d''"
| "lword r11 = ''%r11d''" | "lword r12 = ''%r12d''" | "lword r13 = ''%r13d''"
| "lword r14 = ''%r14d''" | "lword r15 = ''%r15d''"

fun byte :: "reg \<Rightarrow> string" where
  "byte rax = ''%al''" | "byte rbx = ''%bl''" | "byte rcx = ''%cl''"
| "byte rdx = ''%dl''" | "byte rsi = ''%sil''" | "byte rdi = ''%dil''"
| "byte r8 = ''%r8b''" | "byte r9 = ''%r9b''" | "byte r10 = ''%r10b''"
| "byte r11 = ''%r11b''" | "byte r12 = ''%r12b''" | "byte r13 = ''%r13b''"
| "byte r14 = ''%r14b''" | "byte r15 = ''%r15b''"

text \<open>
  Modelled from the spec: \<open>Register::name\<close> of Register.cpp, ``the appropriately sized
  register name'': the byte name for size 1, the 32-bit name for size 4, the 64-bit name
  otherwise.
\<close>

definition reg_name :: "reg \<Rightarrow> 32 word \<Rightarrow> string" where
  "reg_name r sz = (if sz = 1 then byte r else if sz = 4 then lword r else qword r)"

definition parameters :: "reg list" where
  "parameters = [rdi, rsi, rdx, rcx, r8, r9]"

definition registers :: "reg list" where
  "registers = [rax, rdi, rsi, rdx, rcx, r8, r9, r10, r11]"



definition emit :: "instr \<Rightarrow> gen_state \<Rightarrow> gen_state" where
  "emit i st = st\<lparr>out := out st @ [i]\<rparr>"

subsection \<open>assign, load, getreg\<close>

definition assign :: "node_ref option \<Rightarrow> reg option \<Rightarrow> gen_state \<Rightarrow> gen_state" where
  "assign expr r st =
     (let st1 =
        (case expr of
           None \<Rightarrow> st
         | Some (p, e) \<Rightarrow>
             (let st0 = (case reg st p of
                           None \<Rightarrow> st
                         | Some r0 \<Rightarrow> st\<lparr>node := (node st)(r0 := None)\<rparr>)
              in st0\<lparr>reg := (reg st0)(p := r)\<rparr>))
      in case r of
           None \<Rightarrow> st1
         | Some r1 \<Rightarrow>
             (let st2 = (case node st1 r1 of
                           None \<Rightarrow> st1
                         | Some (q, e') \<Rightarrow> st1\<lparr>reg := (reg st1)(q := None)\<rparr>)
              in st2\<lparr>node := (node st2)(r1 := expr)\<rparr>))"

definition suffix :: "64 word \<Rightarrow> string" where
  "suffix sz = (if sz = 1 then ''b'' else if sz = 4 then ''l'' else ''q'')"

definition suffix_expr :: "expr \<Rightarrow> string option" where
  "suffix_expr e = map_option suffix (Type_size (type_of e))"

text \<open>
  Modelled from the spec: the output operator for \<open>Register *\<close> of Register.cpp.  A
  register is written with the name that fits the size of the node it holds, and with
  its 64-bit name when it holds none.
\<close>

definition print_reg :: "gen_state \<Rightarrow> reg \<Rightarrow> asm_operand option" where
  "print_reg st r =
     (case node st r of
        None \<Rightarrow> Some (Reg (qword r))
      | Some (q, e) \<Rightarrow>
          (case Type_size (type_of e) of
             None \<Rightarrow> None
           | Some n \<Rightarrow> Some (Reg (reg_name r (ucast n)))))"

text \<open>
  \<open>Expression::operand\<close>, \<open>Identifier::operand\<close>, \<open>Number::operand\<close> and
  \<open>String::operand\<close>; the first asserts that the node has a spill slot.
\<close>

fun operand :: "gen_state \<Rightarrow> path \<Rightarrow> expr \<Rightarrow> asm_operand option" where
  "operand st p (Identifier symb) =
     (if offset symb = 0 then Some (Global (name symb)) else Some (Frame (offset symb)))"
| "operand st p (Number v t) = Some (Imm (uint v))"
| "operand st p (String s t) = Some Empty"
| "operand st p e = (if expr_offset st p \<noteq> 0 then Some (Frame (expr_offset st p)) else None)"

text \<open>The output operator for \<open>Expression *\<close>.\<close>

definition print_expr :: "gen_state \<Rightarrow> node_ref \<Rightarrow> asm_operand option" where
  "print_expr st expr =
     (case reg st (fst expr) of
        Some r \<Rightarrow> print_reg st r
      | None \<Rightarrow> operand st (fst expr) (snd expr))"

text \<open>
  \<open>load\<close> in its three steps: the spill of the node that the register holds, the move
  of the expression into the register, and \<open>assign\<close>.  The pointers \<open>reg->node\<close> and
  \<open>expr\<close> are compared as positions.
\<close>

definition spill :: "reg \<Rightarrow> gen_state \<Rightarrow> gen_state option" where
  "spill r st =
     (case node st r of
        None \<Rightarrow> Some st
      | Some (q, e) \<Rightarrow>
          (case Type_size (type_of e) of
             None \<Rightarrow> None
           | Some n \<Rightarrow>
               (let off = int32 (gen_offset st - uint n);
                    st1 = st\<lparr>gen_offset := off, expr_offset := (expr_offset st)(q := off)\<rparr>
                in case (suffix_expr e, print_reg st1 r) of
                     (Some sfx, Some src) \<Rightarrow>
                       Some (emit (Instr (''mov'' @ sfx) [src, Frame off]) st1)
                   | _ \<Rightarrow> None)))"

definition fill :: "node_ref option \<Rightarrow> reg \<Rightarrow> gen_state \<Rightarrow> gen_state option" where
  "fill expr r st =
     (case expr of
        None \<Rightarrow> Some st
      | Some (p, e) \<Rightarrow>
          (case Type_size (type_of e) of
             None \<Rightarrow> None
           | Some n \<Rightarrow>
               (case (suffix_expr e, print_expr st (p, e)) of
                  (Some sfx, Some src) \<Rightarrow>
                    Some (emit (Instr (''mov'' @ sfx) [src, Reg (reg_name r (ucast n))]) st)
                | _ \<Rightarrow> None)))"

definition load :: "node_ref option \<Rightarrow> reg \<Rightarrow> gen_state \<Rightarrow> gen_state option" where
  "load expr r st =
     (if map_option fst (node st r) \<noteq> map_option fst expr then
        (case spill r st of
           None \<Rightarrow> None
         | Some st1 \<Rightarrow>
             (case fill expr r st1 of
                None \<Rightarrow> None
              | Some st2 \<Rightarrow> Some (assign expr (Some r) st2)))
      else Some st)"

definition getreg :: "gen_state \<Rightarrow> (reg \<times> gen_state) option" where
  "getreg st =
     (case find (\<lambda>r. node st r = None) registers of
        Some r \<Rightarrow> Some (r, st)
      | None \<Rightarrow>
          (case load None (hd registers) st of
             None \<Rightarrow> None
           | Some st1 \<Rightarrow> Some (hd registers, st1)))"

subsection \<open>Expressions\<close>

text \<open>\<open>if (expr->reg == nullptr) load(expr, getreg());\<close>\<close>

definition load_unless_in_reg :: "node_ref \<Rightarrow> gen_state \<Rightarrow> gen_state option" where
  "load_unless_in_reg expr st =
     (if reg st (fst expr) = None then
        (case getreg st of
           None \<Rightarrow> None
         | Some (r, st1) \<Rightarrow> load (Some expr) r st1)
      else Some st)"

text \<open>
  The part of \<open>Add::generate\<close>, \<open>Subtract::generate\<close> and \<open>Multiply::generate\<close> after
  the operands have been generated; the three differ in the opcode only.
\<close>

definition arith_body :: "string \<Rightarrow> node_ref \<Rightarrow> node_ref \<Rightarrow> node_ref \<Rightarrow> gen_state \<Rightarrow> gen_state option" where
  "arith_body opc this left right st =
     (case load_unless_in_reg left st of
        None \<Rightarrow> None
      | Some st1 \<Rightarrow>
          (case (suffix_expr (snd left), print_expr st1 right, print_expr st1 left) of
             (Some sfx, Some src, Some dst) \<Rightarrow>
               (let st2 = emit (Instr (opc @ sfx) [src, dst]) st1;
                    st3 = assign (Some right) None st2
                in Some (assign (Some this) (reg st3 (fst left)) st3))
           | _ \<Rightarrow> None))"

text \<open>
  \<open>Divide::generate\<close> and \<open>Remainder::generate\<close> after the operands have been
  generated: first the three loads, then the sign extension, the division and the
  bindings.  The two differ in the register that the result is bound to.
\<close>

definition divide_operands :: "node_ref \<Rightarrow> node_ref \<Rightarrow> gen_state \<Rightarrow> gen_state option" where
  "divide_operands left right st =
     (case (if reg st (fst left) = None then load (Some left) rax st else Some st) of
        None \<Rightarrow> None
      | Some st1 \<Rightarrow>
          (case load None rdx st1 of
             None \<Rightarrow> None
           | Some st2 \<Rightarrow>
               (if reg st2 (fst right) = None then load (Some right) rcx st2 else Some st2)))"

definition divide_emit :: "reg \<Rightarrow> node_ref \<Rightarrow> node_ref \<Rightarrow> node_ref \<Rightarrow> gen_state \<Rightarrow> gen_state option" where
  "divide_emit result this left right st =
     (case Type_size (type_of (snd left)) of
        None \<Rightarrow> None
      | Some n \<Rightarrow>
          (let st1 = emit (Instr (if n = 8 then ''cqto'' else ''cltd'') []) st
           in case (suffix_expr (snd right), print_expr st1 right) of
                (Some sfx, Some src) \<Rightarrow>
                  (let st2 = emit (Instr (''idiv'' @ sfx) [src]) st1;
                       st3 = assign (Some right) None st2;
                       st4 = assign (Some left) None st3
                   in Some (assign (Some this) (Some result) st4))
              | _ \<Rightarrow> None))"

definition divide_body :: "reg \<Rightarrow> node_ref \<Rightarrow> node_ref \<Rightarrow> node_ref \<Rightarrow> gen_state \<Rightarrow> gen_state option" where
  "divide_body result this left right st =
     (case divide_operands left right st of
        None \<Rightarrow> None
      | Some st1 \<Rightarrow> divide_emit result this left right st1)"

text \<open>
  The six relational and equality generators after the operands have been generated;
  they differ in the \<open>set\<close> opcode only.  \<open>getreg\<close> is called twice: the first register
  is bound to the result, the byte name of the second receives the condition.
\<close>

definition compare_body :: "string \<Rightarrow> node_ref \<Rightarrow> node_ref \<Rightarrow> node_ref \<Rightarrow> gen_state \<Rightarrow> gen_state option" where
  "compare_body setcc this left right st =
     (case load_unless_in_reg left st of
        None \<Rightarrow> None
      | Some st1 \<Rightarrow>
          (case (suffix_expr (snd left), print_expr st1 right, print_expr st1 left) of
             (Some sfx, Some src, Some dst) \<Rightarrow>
               (let st2 = emit (Instr (''cmp'' @ sfx) [src, dst]) st1;
                    st3 = assign (Some right) None st2;
                    st4 = assign (Some left) None st3
                in case getreg st4 of
                     None \<Rightarrow> None
                   | Some (r1, st5) \<Rightarrow>
                       (let st6 = assign (Some this) (Some r1) st5
                        in case getreg st6 of
                             None \<Rightarrow> None
                           | Some (r2, st7) \<Rightarrow>
                               (let byteRegister = byte r2;
                                    st8 = emit (Instr setcc [Reg byteRegister]) st7
                                in case print_expr st8 this of
                                     None \<Rightarrow> None
                                   | Some res \<Rightarrow>
                                       Some (emit (Instr (''movzb'' @ sfx) [Reg byteRegister, res]) st8))))
           | _ \<Rightarrow> None))"

text \<open>\<open>Not::generate\<close> and \<open>Negate::generate\<close> after the operand has been generated.\<close>

definition not_body :: "node_ref \<Rightarrow> node_ref \<Rightarrow> gen_state \<Rightarrow> gen_state option" where
  "not_body this expr st =
     (case load_unless_in_reg expr st of
        None \<Rightarrow> None
      | Some st1 \<Rightarrow>
          (case (suffix_expr (snd expr), print_expr st1 expr, reg st1 (fst expr)) of
             (Some sfx, Some opd, Some r) \<Rightarrow>
               (let st2 = emit (Instr (''cmp'' @ sfx) [Imm 0, opd]) st1;
                    byteRegister = byte r;
                    st3 = emit (Instr ''sete'' [Reg byteRegister]) st2
                in case print_reg st3 r of
                     None \<Rightarrow> None
                   | Some dst \<Rightarrow>
                       (let st4 = emit (Instr ''movzbl'' [Reg byteRegister, dst]) st3
                        in Some (assign (Some this) (reg st4 (fst expr)) st4)))
           | _ \<Rightarrow> None))"

definition negate_body :: "node_ref \<Rightarrow> node_ref \<Rightarrow> gen_state \<Rightarrow> gen_state option" where
  "negate_body this expr st =
     (case load_unless_in_reg expr st of
        None \<Rightarrow> None
      | Some st1 \<Rightarrow>
          (case (suffix_expr (snd expr), print_expr st1 expr) of
             (Some sfx, Some opd) \<Rightarrow>
               (let st2 = emit (Instr (''neg'' @ sfx) [opd]) st1
                in Some (assign (Some this) (reg st2 (fst expr)) st2))
           | _ \<Rightarrow> None))"

text \<open>
  \<open>Address::generate\<close>: for the address of a dereference, the part after the pointer
  has been generated; for any other operand, the whole.
\<close>

definition address_of_dereference :: "node_ref \<Rightarrow> node_ref \<Rightarrow> gen_state \<Rightarrow> gen_state option" where
  "address_of_dereference this pointer st =
     (case load_unless_in_reg pointer st of
        None \<Rightarrow> None
      | Some st1 \<Rightarrow> Some (assign (Some this) (reg st1 (fst pointer)) st1))"

definition address_of_operand :: "node_ref \<Rightarrow> node_ref \<Rightarrow> gen_state \<Rightarrow> gen_state option" where
  "address_of_operand this expr st =
     (case getreg st of
        None \<Rightarrow> None
      | Some (r, st1) \<Rightarrow>
          (let st2 = assign (Some this) (Some r) st1
           in case (print_expr st2 expr, print_expr st2 this) of
                (Some src, Some dst) \<Rightarrow> Some (emit (Instr ''leaq'' [src, dst]) st2)
              | _ \<Rightarrow> None))"

subsection \<open>Function calls\<close>

text \<open>
  \<open>align\<close>: the number of bytes that bring the given offset to a multiple of
  \<open>STACK_ALIGNMENT\<close>.
\<close>

definition align :: "int \<Rightarrow> int" where
  "align off =
     (if c_rem off STACK_ALIGNMENT = 0 then 0
      else STACK_ALIGNMENT - c_rem \<bar>off\<bar> STACK_ALIGNMENT)"

text \<open>\<open>sign_extend_byte_arg\<close> reads the register of the argument without a check.\<close>

definition sign_extend_byte_arg :: "node_ref \<Rightarrow> gen_state \<Rightarrow> gen_state option" where
  "sign_extend_byte_arg arg st =
     (case Type_size (type_of (snd arg)) of
        None \<Rightarrow> None
      | Some n \<Rightarrow>
          (if n = 1 then
             (case (print_expr st arg, reg st (fst arg)) of
                (Some src, Some r) \<Rightarrow> Some (emit (Instr ''movsbl'' [src, Reg (reg_name r 4)]) st)
              | _ \<Rightarrow> None)
           else Some st))"

text \<open>
  The stack adjustment before the arguments are moved: \<open>numBytes\<close>, an \<open>unsigned\<close>, and
  the \<open>subq\<close> that is written when it is not zero.  The number of arguments beyond the
  registers times \<open>PARAM_ALIGNMENT\<close> is computed in \<open>size_t\<close> and passed as an \<open>int\<close>.
\<close>

definition call_adjust :: "nat \<Rightarrow> gen_state \<Rightarrow> 32 word \<times> gen_state" where
  "call_adjust n st =
     (if n > NUM_PARAM_REGS then
        (let numBytes = (word_of_int (align (int32 (int (n - NUM_PARAM_REGS) * PARAM_ALIGNMENT))) :: 32 word)
         in if numBytes > 0
            then (numBytes, emit (Instr ''subq'' [Imm (uint numBytes), Reg ''%rsp'']) st)
            else (numBytes, st))
      else (0, st))"

text \<open>
  The loop that moves the arguments, from the last to the first: \<open>move_args p args k\<close>
  runs it for the indices below \<open>k\<close>.  The argument with index \<open>i\<close> is the child \<open>i\<close>
  of the call at \<open>p\<close>.
\<close>

fun move_args :: "path \<Rightarrow> expr list \<Rightarrow> nat \<Rightarrow> 32 word \<times> gen_state \<Rightarrow> (32 word \<times> gen_state) option" where
  "move_args p args 0 (numBytes, st) = Some (numBytes, st)"
| "move_args p args (Suc i) (numBytes, st) =
     (let arg = (p @ [i], args ! i)
      in if i \<ge> NUM_PARAM_REGS then
           (case load (Some arg) rax st of
              None \<Rightarrow> None
            | Some st1 \<Rightarrow>
                (case sign_extend_byte_arg arg st1 of
                   None \<Rightarrow> None
                 | Some st2 \<Rightarrow>
                     (let st3 = emit (Instr ''pushq'' [Reg ''%rax'']) st2
                      in move_args p args i (numBytes + word_of_int PARAM_ALIGNMENT,
                           assign (Some arg) None st3))))
         else
           (case load (Some arg) (parameters ! i) st of
              None \<Rightarrow> None
            | Some st1 \<Rightarrow>
                (case sign_extend_byte_arg arg st1 of
                   None \<Rightarrow> None
                 | Some st2 \<Rightarrow> move_args p args i (numBytes, assign (Some arg) None st2))))"

text \<open>\<open>for (auto reg : registers) load(nullptr, reg);\<close>\<close>

fun spill_all :: "reg list \<Rightarrow> gen_state \<Rightarrow> gen_state option" where
  "spill_all [] st = Some st"
| "spill_all (r # rs) st =
     (case load None r st of
        None \<Rightarrow> None
      | Some st1 \<Rightarrow> spill_all rs st1)"

text \<open>
  \<open>Call::generate\<close> after the arguments have been generated.  The variadic flag is
  read through \<open>Type::parameters\<close>, which asserts a function type.
\<close>

definition call_body :: "node_ref \<Rightarrow> symbol \<Rightarrow> expr list \<Rightarrow> gen_state \<Rightarrow> gen_state option" where
  "call_body this ident args st =
     (case call_adjust (length args) st of
        (numBytes0, st1) \<Rightarrow>
          (case move_args (fst this) args (length args) (numBytes0, st1) of
             None \<Rightarrow> None
           | Some (numBytes, st2) \<Rightarrow>
               (case spill_all registers st2 of
                  None \<Rightarrow> None
                | Some st3 \<Rightarrow>
                    (case stype ident of
                       Function_type s n variadic types \<Rightarrow>
                         (let st4 = (if variadic
                                     then emit (Instr ''movl'' [Imm 0, Reg ''%eax'']) st3
                                     else st3);
                              st5 = emit (Instr ''call'' [Global (name ident)]) st4;
                              st6 = (if numBytes > 0
                                     then emit (Instr ''addq'' [Imm (uint numBytes), Reg ''%rsp'']) st5
                                     else st5)
                          in Some (assign (Some this) (Some rax) st6))
                     | _ \<Rightarrow> None))))"

subsection \<open>The tree walk\<close>

text \<open>
  \<open>generate p e\<close> is \<open>e->generate()\<close> for the node \<open>e\<close> at position \<open>p\<close>.
  \<open>generate_list\<close> generates the arguments of a call from the last to the first.  The
  generators of \<open>Dereference\<close>, \<open>Cast\<close>, \<open>LogicalAnd\<close> and \<open>LogicalOr\<close> have empty
  bodies in the source.

  Modelled from the spec: \<open>Expression::generate\<close> of Tree.cpp, which numbers, strings
  and identifiers inherit.  The spec has the parent load an operand that is in no
  register after it has been generated; the generator of a leaf writes nothing.
\<close>

fun generate :: "expr \<Rightarrow> path \<Rightarrow> gen_state \<Rightarrow> gen_state option"
  and generate_list :: "expr list \<Rightarrow> path \<Rightarrow> nat \<Rightarrow> gen_state \<Rightarrow> gen_state option" where
  "generate (Number v t) p st = Some st"
| "generate (String s t) p st = Some st"
| "generate (Identifier symb) p st = Some st"
| "generate (Call ident args t) p st =
     (case generate_list args p 0 st of
        None \<Rightarrow> None
      | Some st1 \<Rightarrow> call_body (p, Call ident args t) ident args st1)"
| "generate (Unary opr e t) p st =
     (case opr of
        Not_expr \<Rightarrow>
          (case generate e (p @ [0]) st of
             None \<Rightarrow> None
           | Some st1 \<Rightarrow> not_body (p, Unary opr e t) (p @ [0], e) st1)
      | Negate \<Rightarrow>
          (case generate e (p @ [0]) st of
             None \<Rightarrow> None
           | Some st1 \<Rightarrow> negate_body (p, Unary opr e t) (p @ [0], e) st1)
      | Address \<Rightarrow>
          (case e of
             Unary Dereference pointer t' \<Rightarrow>
               (case generate pointer (p @ [0, 0]) st of
                  None \<Rightarrow> None
                | Some st1 \<Rightarrow>
                    address_of_dereference (p, Unary opr e t) (p @ [0, 0], pointer) st1)
           | _ \<Rightarrow> address_of_operand (p, Unary opr e t) (p @ [0], e) st)
      | Dereference \<Rightarrow> Some st
      | Cast \<Rightarrow> Some st)"
| "generate (Binary opr l r t) p st =
     (if opr = LogicalAnd \<or> opr = LogicalOr then Some st
      else
        (case generate l (p @ [0]) st of
           None \<Rightarrow> None
         | Some st1 \<Rightarrow>
             (case generate r (p @ [1]) st1 of
                None \<Rightarrow> None
              | Some st2 \<Rightarrow>
                  (let this = (p, Binary opr l r t); left = (p @ [0], l); right = (p @ [1], r)
                   in case opr of
                        Add \<Rightarrow> arith_body ''add'' this left right st2
                      | Subtract \<Rightarrow> arith_body ''sub'' this left right st2
                      | Multiply \<Rightarrow> arith_body ''mul'' this left right st2
                      | Divide \<Rightarrow> divide_body rax this left right st2
                      | Remainder \<Rightarrow> divide_body rdx this left right st2
                      | LessThan \<Rightarrow> compare_body ''setl'' this left right st2
                      | GreaterThan \<Rightarrow> compare_body ''setg'' this left right st2
                      | LessOrEqual \<Rightarrow> compare_body ''setle'' this left right st2
                      | GreaterOrEqual \<Rightarrow> compare_body ''setge'' this left right st2
                      | Equal \<Rightarrow> compare_body ''sete'' this left right st2
                      | NotEqual \<Rightarrow> compare_body ''setne'' this left right st2
                      | _ \<Rightarrow> Some st2))))"
| "generate_list [] p i st = Some st"
| "generate_list (a # as) p i st =
     (case generate_list as p (i + 1) st of
        None \<Rightarrow> None
      | Some st1 \<Rightarrow> generate a (p @ [i]) st1)"

text \<open>
  \<open>Simple::generate\<close>, the generator of an expression statement: the expression is
  generated and then bound to no register.
\<close>

definition Simple_generate :: "expr \<Rightarrow> path \<Rightarrow> gen_state \<Rightarrow> gen_state option" where
  "Simple_generate e p st =
     (case generate e p st of
        None \<Rightarrow> None
      | Some st1 \<Rightarrow> Some (assign (Some (p, e)) None st1))"

text \<open>The state in which \<open>Function::generate\<close> starts a body: nothing is bound.\<close>

definition initial :: "int \<Rightarrow> gen_state" where
  "initial off =
     \<lparr>node = (\<lambda>r. None), reg = (\<lambda>p. None), expr_offset = (\<lambda>p. 0),
      gen_offset = off, out = []\<rparr>"

subsection \<open>The stack pointer\<close>

text \<open>
  What a line of the output does to \<open>%rsp\<close>, in bytes: \<open>subq $n, %rsp\<close> lowers it by
  \<open>n\<close>, \<open>pushq\<close> lowers it by the size of a register, \<open>addq $n, %rsp\<close> raises it
  by \<open>n\<close> and \<open>popq\<close> by the size of a register; the other lines that the
  generator of a call writes leave it alone.  \<open>round_up\<close> is the least multiple of the
  alignment that is not below its argument.
\<close>

fun rsp_change :: "instr \<Rightarrow> int" where
  "rsp_change (Instr opc ops) =
     (if opc = ''subq'' then
        (case ops of [Imm n, Reg d] \<Rightarrow> (if d = ''%rsp'' then - n else 0) | _ \<Rightarrow> 0)
      else if opc = ''addq'' then
        (case ops of [Imm n, Reg d] \<Rightarrow> (if d = ''%rsp'' then n else 0) | _ \<Rightarrow> 0)
      else if opc = ''pushq'' then - SIZEOF_REG
      else if opc = ''popq'' then SIZEOF_REG
      else 0)"

definition round_up :: "int \<Rightarrow> int \<Rightarrow> int" where
  "round_up x a = (x + a - 1) div a * a"

section \<open>Declarations and the driver (checker.cpp, parser.cpp, generator.cpp)\<close>

subsection \<open>Scopes and declarations\<close>

text \<open>
  Modelled from the spec: the class \<open>Scope\<close> of Scope.cpp, a list of symbols in the
  order of their insertion, where \<open>find\<close> searches this scope only; and the constructor
  of \<open>Symbol\<close>, which leaves the offset 0.
\<close>

definition find_symbol :: "string \<Rightarrow> symbol list \<Rightarrow> symbol option" where
  "find_symbol n scope = find (\<lambda>symb. name symb = n) scope"

definition new_Symbol :: "string \<Rightarrow> type \<Rightarrow> symbol" where
  "new_Symbol n t = \<lparr>name = n, stype = t, offset = 0\<rparr>"


definition openScope :: "checker_state \<Rightarrow> checker_state" where
  "openScope st = st\<lparr>inner := [] # inner st\<rparr>"

definition closeScope :: "checker_state \<Rightarrow> checker_state" where
  "closeScope st = st\<lparr>inner := tl (inner st)\<rparr>"

definition declareFunction :: "string \<Rightarrow> type \<Rightarrow> checker_state \<Rightarrow> checker_state" where
  "declareFunction n t st =
     (case find_symbol n (global st) of
        None \<Rightarrow> st\<lparr>global := global st @ [new_Symbol n t]\<rparr>
      | Some symb \<Rightarrow>
          (if Type_ne (stype symb) t then st\<lparr>diags := report conflicting n (diags st)\<rparr>
           else st))"

definition defineFunction :: "string \<Rightarrow> type \<Rightarrow> checker_state \<Rightarrow> checker_state" where
  "defineFunction n t st =
     (let st1 = (if n \<in> defined st then st\<lparr>diags := report redefined n (diags st)\<rparr> else st)
      in declareFunction n t (st1\<lparr>defined := insert n (defined st1)\<rparr>))"

definition declareVariable :: "string \<Rightarrow> type \<Rightarrow> checker_state \<Rightarrow> checker_state" where
  "declareVariable n t st =
     (case inner st of
        [] \<Rightarrow>
          (case find_symbol n (global st) of
             None \<Rightarrow> st\<lparr>global := global st @ [new_Symbol n t]\<rparr>
           | Some symb \<Rightarrow>
               (if Type_ne (stype symb) t then st\<lparr>diags := report conflicting n (diags st)\<rparr>
                else st))
      | current # enclosing \<Rightarrow>
          (case find_symbol n current of
             None \<Rightarrow> st\<lparr>inner := (current @ [new_Symbol n t]) # enclosing\<rparr>
           | Some symb \<Rightarrow> st\<lparr>diags := report redeclared n (diags st)\<rparr>))"

subsection \<open>Global declarations\<close>

text \<open>\<open>generateGlobals\<close>: a \<open>.comm\<close> line for every symbol that is not a function.\<close>

fun generateGlobals :: "symbol list \<Rightarrow> instr list option" where
  "generateGlobals [] = Some []"
| "generateGlobals (symb # symbols) =
     (if \<not> isFunction (stype symb) then
        (case Type_size (stype symb) of
           None \<Rightarrow> None
         | Some n \<Rightarrow>
             (case generateGlobals symbols of
                None \<Rightarrow> None
              | Some ls \<Rightarrow> Some (Instr ''.comm'' [Global (name symb), Imm (uint n)] # ls)))
      else generateGlobals symbols)"

subsection \<open>The translation unit\<close>

text \<open>
  The parser is driven by tokens; what it does for one \<open>functionOrGlobal\<close> is fixed by
  what the tokens spell.  A translation unit is given here as the list of these items:
  a list of global declarators, a function definition, text at which the parser
  finds a syntax error, or a function definition in whose body a check does not
  return.  A declarator declares a scalar or an array, or a function with
  its parameters.  A function definition is given with its name, return type and
  parameters, with the messages that are reported while its declarations and
  statements are parsed, and with the text that \<open>Function::generate\<close> writes for it
  (\<open>None\<close> when one of the generator's assertions fails).  A syntax error is given
  with the lexeme at which the parser finds it, \<open>None\<close> at the end of the file.  A
  check that does not return is \<open>checkCall\<close> for a call that has an argument of
  error type after the declared parameters of a variadic function.
\<close>

datatype declarator =
    Variable string type
  | Prototype string specifier "32 word" "(string \<times> type) list" bool

datatype item =
    Declaration "declarator list"
  | Definition string specifier "32 word" "(string \<times> type) list" bool diagnostics "instr list option"
  | SyntaxError "string option"
  | Unending

text \<open>\<open>parameters\<close> of the parser declares each parameter in the scope just opened.\<close>

fun declare_parameters :: "(string \<times> type) list \<Rightarrow> checker_state \<Rightarrow> checker_state" where
  "declare_parameters [] st = st"
| "declare_parameters ((n, t) # ps) st = declare_parameters ps (declareVariable n t st)"

fun globalDeclarator :: "declarator \<Rightarrow> checker_state \<Rightarrow> checker_state" where
  "globalDeclarator (Variable n t) st = declareVariable n t st"
| "globalDeclarator (Prototype n s ind params variadic) st =
     closeScope
       (declareFunction n (Function_type s ind variadic (map snd params))
          (declare_parameters params (openScope st)))"

fun globalDeclarators :: "declarator list \<Rightarrow> checker_state \<Rightarrow> checker_state" where
  "globalDeclarators [] st = st"
| "globalDeclarators (d # ds) st = globalDeclarators ds (globalDeclarator d st)"

definition EXIT_SUCCESS :: int where "EXIT_SUCCESS = 0"
definition EXIT_FAILURE :: int where "EXIT_FAILURE = 1"

text \<open>
  How the process ends: by a call of \<open>exit\<close> with a status, with the text written to
  the standard output and the messages reported; or by a failed assertion, which
  aborts it.  A process in which a check does not return does not end.
\<close>

datatype outcome =
    Exited int "instr list" diagnostics
  | Aborted
  | Diverges

text \<open>
  \<open>main\<close>: the loop over \<open>functionOrGlobal\<close> until the end of the input, then
  \<open>generateGlobals\<close> and \<open>exit(EXIT_SUCCESS)\<close>.  \<open>error\<close> of the parser reports the
  syntax error, at the end of the file or at the lexeme in \<open>lexbuf\<close>, and calls
  \<open>exit(EXIT_FAILURE)\<close>.
\<close>

definition syntax_error :: "string option \<Rightarrow> diagnostics \<Rightarrow> diagnostics" where
  "syntax_error lexeme ds =
     (case lexeme of
        None \<Rightarrow> report ''syntax error at end of file'' [] ds
      | Some lexbuf \<Rightarrow>
          report (''syntax error at '' @ [CHR 0x27] @ ''%s'' @ [CHR 0x27]) lexbuf ds)"

text \<open>
  The checker's state at the end of the body of a function definition: the parameters
  are declared in a new scope, the function is defined, the body is parsed and
  reports its messages, and the scope is closed.
\<close>

definition function_checked ::
  "string \<Rightarrow> specifier \<Rightarrow> 32 word \<Rightarrow> (string \<times> type) list \<Rightarrow> bool \<Rightarrow> diagnostics \<Rightarrow>
   checker_state \<Rightarrow> checker_state" where
  "function_checked n s ind params variadic body_diags st =
     (let st1 = declare_parameters params (openScope st);
          st2 = defineFunction n (Function_type s ind variadic (map snd params)) st1
      in closeScope (st2\<lparr>diags := diags st2 @ body_diags\<rparr>))"

fun translation_unit :: "item list \<Rightarrow> checker_state \<Rightarrow> instr list \<Rightarrow> outcome" where
  "translation_unit [] st output =
     (case generateGlobals (global st) of
        None \<Rightarrow> Aborted
      | Some ls \<Rightarrow> Exited EXIT_SUCCESS (output @ ls) (diags st))"
| "translation_unit (SyntaxError lexeme # items) st output =
     Exited EXIT_FAILURE output (syntax_error lexeme (diags st))"
| "translation_unit (Unending # items) st output = Diverges"
| "translation_unit (Declaration ds # items) st output =
     translation_unit items (globalDeclarators ds st) output"
| "translation_unit (Definition n s ind params variadic body_diags code # items) st output =
     (let st1 = function_checked n s ind params variadic body_diags st
      in if numerrors (diags st1) = 0 then
           (case code of
              None \<Rightarrow> Aborted
            | Some ls \<Rightarrow> translation_unit items st1 (output @ ls))
         else translation_unit items st1 output)"

definition main :: "item list \<Rightarrow> outcome" where
  "main items =
     translation_unit items \<lparr>defined = {}, global = [], inner = [], diags = []\<rparr> []"

section \<open>Example programs\<close>

text \<open>
  \<open>int f(int x, int y, int z, int w, int u, int v, int k) {}\<close>: the symbol of the
  function and the symbols of its body, as the parser declares them.
\<close>

definition seven_ints :: "type list" where
  "seven_ints = [integer, integer, integer, integer, integer, integer, integer]"

definition f_symbol :: symbol where
  "f_symbol = \<lparr>name = ''f'', stype = Function_type INT_spec 0 False seven_ints, offset = 0\<rparr>"

definition f_decls :: "symbol list" where
  "f_decls = map (\<lambda>n. new_Symbol n integer) [''x'', ''y'', ''z'', ''w'', ''u'', ''v'', ''k'']"

text \<open>
  Three global variables of type \<open>int\<close>, and the state of the generator in which
  \<open>%rax\<close> holds the node for \<open>b\<close>, the second child of the root, with 8 bytes of
  the frame in use.
\<close>

definition a_symbol :: symbol where "a_symbol = new_Symbol ''a'' integer"
definition b_symbol :: symbol where "b_symbol = new_Symbol ''b'' integer"
definition c_symbol :: symbol where "c_symbol = new_Symbol ''c'' integer"

definition holding_b :: gen_state where
  "holding_b = assign (Some ([1], Identifier b_symbol)) (Some rax) (initial (- 8))"

text \<open>
  A call of \<open>long g(long, long, long, long, long, long, long)\<close> with the local
  variable \<open>l\<close>, at offset \<open>-8\<close>, as each of its seven arguments.
\<close>

definition g_symbol :: symbol where
  "g_symbol =
     new_Symbol ''g'' (Function_type LONG_spec 0 False
       [longint, longint, longint, longint, longint, longint, longint])"

definition l_symbol :: symbol where
  "l_symbol = \<lparr>name = ''l'', stype = longint, offset = - 8\<rparr>"

definition seven_args :: "expr list" where
  "seven_args =
     [Identifier l_symbol, Identifier l_symbol, Identifier l_symbol, Identifier l_symbol,
      Identifier l_symbol, Identifier l_symbol, Identifier l_symbol]"

text \<open>
  \<open>int f(void) { \<dots> }  int x;\<close> where the body of \<open>f\<close> has a \<open>return\<close> of
  an incompatible type, so that one message is reported before \<open>x\<close> is declared.
\<close>

definition error_then_global :: "item list" where
  "error_then_global =
     [Definition ''f'' INT_spec 0 [] False [(invalid_return, [])] None,
      Declaration [Variable ''x'' integer]]"

definition checker_with_error :: checker_state where
  "checker_with_error =
     \<lparr>defined = {''f''},
      global = [new_Symbol ''f'' (Function_type INT_spec 0 False [])],
      inner = [], diags = [(invalid_return, [])]\<rparr>"

text \<open>
  \<open>int *p;\<close> at the global scope, and the expression \<open>*p + 1\<close> as the checker
  builds it.
\<close>

definition p_symbol :: symbol where "p_symbol = new_Symbol ''p'' (Scalar_type INT_spec 1)"

definition dereference_plus_one :: expr where
  "dereference_plus_one =
     Binary Add (Unary Dereference (Identifier p_symbol) integer) (Number 1 integer) integer"

section \<open>Properties of types\<close>

lemma list_all2_eq_members:
  "(\<And>x y. x \<in> set xs \<Longrightarrow> y \<in> set ys \<Longrightarrow> P x y \<longleftrightarrow> x = y)
     \<Longrightarrow> list_all2 P xs ys \<longleftrightarrow> xs = ys"
proof (induction xs arbitrary: ys)
  case Nil
  then show ?case by auto
next
  case (Cons x xs)
  then show ?case by (cases ys) auto
qed

lemma Type_eq_iff: "Type_eq a b \<longleftrightarrow> a = b"
proof (induction a b rule: Type_eq.induct)
  case (4 s n v ts s' n' v' ts')
  have "list_all2 Type_eq ts ts' \<longleftrightarrow> ts = ts'" if "s = s'" "n = n'" "v = v'"
    using "4.IH" that by (intro list_all2_eq_members) auto
  then show ?case by auto
qed auto

text \<open>
  Claim C9.  \<open>Type::operator ==\<close> is an equivalence relation on types: it is reflexive,
  symmetric and transitive.  Two equal types of which the first is neither a function
  type nor an error type both have a size, and the two sizes are equal.
\<close>

theorem Type_eq_equivalence_size:
  "(\<forall>a. Type_eq a a) \<and>
   (\<forall>a b. Type_eq a b \<longrightarrow> Type_eq b a) \<and>
   (\<forall>a b c. Type_eq a b \<longrightarrow> Type_eq b c \<longrightarrow> Type_eq a c) \<and>
   (\<forall>a b. Type_eq a b \<longrightarrow> kind a \<noteq> FUNCTION \<longrightarrow> kind a \<noteq> ERROR \<longrightarrow>
      (\<exists>n. Type_size a = Some n \<and> Type_size b = Some n))"
proof -
  have size: "\<exists>n. Type_size a = Some n" if "kind a \<noteq> FUNCTION" "kind a \<noteq> ERROR" for a
    using that by (cases a) auto
  show ?thesis
    using size by (auto simp: Type_eq_iff)
qed

theorem Type_eq_equivalence_size_witness:
  "Type_eq (Array_type INT_spec 0 10) (Array_type INT_spec 0 10) \<and>
   kind (Array_type INT_spec 0 10) \<noteq> FUNCTION \<and>
   kind (Array_type INT_spec 0 10) \<noteq> ERROR \<and>
   Type_size (Array_type INT_spec 0 10) = Some 40"
  using Type_eq_equivalence_size
  by (simp add: unit_size_def SIZEOF_INT_def)

section \<open>Properties of the checker\<close>

lemma Type_ne_error: "Type_ne t Error_type \<longleftrightarrow> t \<noteq> Error_type"
  by (simp add: Type_ne_def Type_eq_iff)

lemma type_of_cast: "type_of (cast e t) = t"
  by (cases e) (auto simp: cast_def Type_ne_def Type_eq_iff new_Number_def longint_def Let_def)

lemma cast_same: "type_of e = t \<Longrightarrow> t \<noteq> longint \<Longrightarrow> cast e t = e"
  by (cases e) (auto simp: cast_def Type_ne_def Type_eq_iff Let_def)

lemma promote_error: "type_of e = Error_type \<Longrightarrow> promote e = e"
  by (simp add: promote_def cast_same longint_def)

lemma decay_error: "type_of e = Error_type \<Longrightarrow> decay e = e"
  by (simp add: decay_def isArray_def)

lemma extend_error: "type_of e = Error_type \<Longrightarrow> extend e t = e"
  by (simp add: extend_def Let_def Type_eq_iff character_def integer_def promote_error)

lemma type_of_promote: "type_of (promote e) = Type_promote (type_of e)"
  by (simp add: promote_def type_of_cast)

lemma type_of_decay: "type_of (decay e) = Type_decay (type_of e)"
  by (cases "type_of e") (auto simp: decay_def isArray_def)

lemma checkNot_error: "type_of e = error \<Longrightarrow> type_of (fst (checkNot e ds)) = error \<and> snd (checkNot e ds) = ds"
  by (simp add: checkNot_def Let_def error_def Type_ne_error promote_error decay_error)

lemma checkMultiplicative_error:
  "type_of l = error \<or> type_of r = error \<Longrightarrow>
   fst (snd (snd (checkMultiplicative l r opr ds))) = error \<and> snd (snd (snd (checkMultiplicative l r opr ds))) = ds"
  by (auto simp: checkMultiplicative_def Let_def error_def Type_ne_error extend_error decay_error)

lemma checkComparative_error:
  "type_of l = error \<or> type_of r = error \<Longrightarrow>
   fst (snd (snd (checkComparative l r opr ds))) = error \<and> snd (snd (snd (checkComparative l r opr ds))) = ds"
  by (auto simp: checkComparative_def Let_def error_def Type_ne_error extend_error decay_error)

lemma checkLogical_error:
  "type_of l = error \<or> type_of r = error \<Longrightarrow>
   fst (snd (snd (checkLogical l r opr ds))) = error \<and> snd (snd (snd (checkLogical l r opr ds))) = ds"
  by (auto simp: checkLogical_def Let_def error_def Type_ne_error promote_error decay_error)

lemma checkAdd_error:
  "type_of l = error \<or> type_of r = error \<Longrightarrow>
   \<exists>e. checkAdd l r ds = Some (e, ds) \<and> type_of e = error"
  by (auto simp: checkAdd_def Let_def error_def Type_ne_error extend_error decay_error)

lemma checkSubtract_error:
  "type_of l = error \<or> type_of r = error \<Longrightarrow>
   \<exists>e. checkSubtract l r ds = Some (e, ds) \<and> type_of e = error"
  by (auto simp: checkSubtract_def subtract_operands_def Let_def error_def Type_ne_error extend_error decay_error Type_eq_iff)

lemma checkArray_error:
  "type_of l = error \<or> type_of r = error \<Longrightarrow>
   \<exists>e. checkArray l r ds = Some (e, ds) \<and> type_of e = error"
  by (auto simp: checkArray_def Let_def error_def Type_ne_error extend_error promote_error decay_error)


lemma checkNegate_error: "type_of e = error \<Longrightarrow> type_of (fst (checkNegate e ds)) = error \<and> snd (checkNegate e ds) = ds"
  by (simp add: checkNegate_def Let_def error_def Type_ne_error promote_error decay_error)

lemma checkDereference_error: "type_of e = error \<Longrightarrow> \<exists>e'. checkDereference e ds = Some (e', ds) \<and> type_of e' = error"
  by (simp add: checkDereference_def Let_def error_def Type_ne_error decay_error)

lemma checkAddress_error: "type_of e = error \<Longrightarrow> type_of (fst (checkAddress e ds)) = error \<and> snd (checkAddress e ds) = ds"
  by (simp add: checkAddress_def Let_def error_def Type_ne_error)

lemma checkCast_error: "type_of e = error \<Longrightarrow> type_of (fst (checkCast t e ds)) = error \<and> snd (checkCast t e ds) = ds"
  by (simp add: checkCast_def Let_def error_def Type_ne_error decay_error type_of_cast)

lemma checkTest_error: "type_of e = error \<Longrightarrow> type_of (fst (checkTest e ds)) = error \<and> snd (checkTest e ds) = ds"
  by (simp add: checkTest_def Let_def error_def Type_ne_error decay_error promote_error)

lemma checkSizeof_error: "type_of e = error \<Longrightarrow> checkSizeof e ds = Some (new_Number 0, ds)"
  by (simp add: checkSizeof_def Let_def error_def Type_ne_error)

lemma checkCall_error_callee: "stype ident = error \<Longrightarrow> checkCall ident args ds = Some (Call ident args error, ds)"
  by (simp add: checkCall_def Let_def error_def Type_ne_error)

lemma check_named_all:
  "length types \<le> length args \<Longrightarrow>
   (\<forall>k. i \<le> k \<and> k < length types \<longrightarrow>
        type_of (args ! k) = error \<or> isCompatibleWith (types ! k) (type_of (decay (args ! k)))) \<Longrightarrow>
   \<exists>args'. check_named types i args = (True, args') \<and> length args' = length args"
proof (induction types i args rule: check_named.induct)
  case (1 types i args)
  show ?case
  proof (cases "i < length types")
    case False
    then show ?thesis by (subst check_named.simps) simp
  next
    case True
    show ?thesis
    proof (cases "Type_ne (type_of (args ! i)) error")
      case False
      have "\<exists>args'. check_named types (i + 1) args = (True, args') \<and> length args' = length args"
        using "1.IH"(2)[OF True False] "1.prems" by simp
      then show ?thesis using True False by (subst check_named.simps) simp
    next
      case ne: True
      let ?a = "decay (args ! i)"
      let ?args1 = "args[i := ?a]"
      let ?args2 = "?args1[i := cast ?a (types ! i)]"
      have compat: "isCompatibleWith (types ! i) (type_of ?a)"
        using "1.prems"(2) True ne by (auto simp: Type_ne_def Type_eq_iff)
      have later: "\<forall>k. i + 1 \<le> k \<and> k < length types \<longrightarrow>
          type_of (?args2 ! k) = error \<or> isCompatibleWith (types ! k) (type_of (decay (?args2 ! k)))"
        using "1.prems"(2) by simp
      have "\<exists>args'. check_named types (i + 1) ?args2 = (True, args') \<and> length args' = length ?args2"
        using "1.IH"(1)[OF True ne refl refl] compat later "1.prems"(1) by simp
      then show ?thesis using True ne compat by (subst check_named.simps) (simp add: Let_def)
    qed
  qed
qed

lemma check_extras_none: "check_extras (length args) args = Some (True, args)"
  by (subst check_extras.simps) simp

lemma checkCall_skips_error_arguments:
  assumes "stype ident = Function_type s n variadic types"
    and "length args = length types"
    and "\<forall>k < length types.
           type_of (args ! k) = error \<or> isCompatibleWith (types ! k) (type_of (decay (args ! k)))"
  shows "\<exists>args'. checkCall ident args ds = Some (Call ident args' (Scalar_type s n), ds)"
proof -
  obtain args' where a: "check_named types 0 args = (True, args')" "length args' = length args"
    using check_named_all[of types args 0] assms by auto
  have b: "check_extras (length types) args' = Some (True, args')"
    using a assms(2) check_extras_none[of args'] by simp
  have "checkCall ident args ds = Some (Call ident args' (Scalar_type s n), ds)"
    unfolding checkCall_def Let_def
    by (simp only: assms(1,2) a b Type_ne_def Type_eq_iff error_def type.simps type.case
          if_True if_False not_True_eq_False not_False_eq_True less_irrefl simp_thms
          split_conv option.case bool.case prod.case)
  then show ?thesis by blast
qed

lemma multiplicative_error:
  assumes "type_of l = error \<or> type_of r = error"
  shows "type_of (fst (checkMultiply l r ds)) = error \<and> snd (checkMultiply l r ds) = ds"
    and "type_of (fst (checkDivide l r ds)) = error \<and> snd (checkDivide l r ds) = ds"
    and "type_of (fst (checkRemainder l r ds)) = error \<and> snd (checkRemainder l r ds) = ds"
  using checkMultiplicative_error[OF assms, of "''*''" ds]
    checkMultiplicative_error[OF assms, of "''/''" ds]
    checkMultiplicative_error[OF assms, of "''%''" ds]
  by (auto simp: checkMultiply_def checkDivide_def checkRemainder_def split: prod.splits)

lemma comparative_error:
  assumes "type_of l = error \<or> type_of r = error"
  shows "type_of (fst (checkLessThan l r ds)) = error \<and> snd (checkLessThan l r ds) = ds"
    and "type_of (fst (checkGreaterThan l r ds)) = error \<and> snd (checkGreaterThan l r ds) = ds"
    and "type_of (fst (checkLessOrEqual l r ds)) = error \<and> snd (checkLessOrEqual l r ds) = ds"
    and "type_of (fst (checkGreaterOrEqual l r ds)) = error \<and> snd (checkGreaterOrEqual l r ds) = ds"
    and "type_of (fst (checkEqual l r ds)) = error \<and> snd (checkEqual l r ds) = ds"
    and "type_of (fst (checkNotEqual l r ds)) = error \<and> snd (checkNotEqual l r ds) = ds"
  using checkComparative_error[OF assms, of "''<''" ds]
    checkComparative_error[OF assms, of "''>''" ds]
    checkComparative_error[OF assms, of "''<=''" ds]
    checkComparative_error[OF assms, of "''>=''" ds]
    checkComparative_error[OF assms, of "''==''" ds]
    checkComparative_error[OF assms, of "''!=''" ds]
  by (auto simp: checkLessThan_def checkGreaterThan_def checkLessOrEqual_def
        checkGreaterOrEqual_def checkEqual_def checkNotEqual_def split: prod.splits)

lemma logical_error:
  assumes "type_of l = error \<or> type_of r = error"
  shows "type_of (fst (checkLogicalAnd l r ds)) = error \<and> snd (checkLogicalAnd l r ds) = ds"
    and "type_of (fst (checkLogicalOr l r ds)) = error \<and> snd (checkLogicalOr l r ds) = ds"
  using checkLogical_error[OF assms, of "''&&''" ds] checkLogical_error[OF assms, of "''||''" ds]
  by (auto simp: checkLogicalAnd_def checkLogicalOr_def split: prod.splits)

lemma pointer_element_size:
  "isPointer t \<Longrightarrow>
   \<exists>d n. Type_dereference t = Some d \<and> Type_size d = Some n \<and> dereference_size t = Some n \<and>
         (n = 1 \<or> n = 4 \<or> n = 8)"
  by (cases t)
     (auto simp: dereference_size_def unit_size_def SIZEOF_PTR_def SIZEOF_CHAR_def
        SIZEOF_INT_def SIZEOF_LONG_def)

lemma specifier_long: "s \<noteq> CHAR_spec \<Longrightarrow> s \<noteq> INT_spec \<Longrightarrow> s = LONG_spec"
  by (cases s) auto

lemma extend_long_numeric:
  "isNumeric (type_of e) \<Longrightarrow>
   extend e longint =
     (if type_of e = longint then e
      else case e of
             Number v t \<Rightarrow> if t = integer then Number v longint else Unary Cast e longint
           | _ \<Rightarrow> Unary Cast e longint)"
  by (cases e; cases "type_of e")
     (auto simp: extend_def cast_def promote_def Let_def Type_eq_iff Type_ne_def
        character_def integer_def longint_def new_Number_def intro: specifier_long)

lemma scale_element_size:
  "n = 1 \<or> n = 4 \<or> n = 8 \<Longrightarrow>
   scale e (ucast (n :: 64 word)) =
     (if n = 1 then extend e longint
      else case e of
             Number v t \<Rightarrow> Number (v * n) longint
           | _ \<Rightarrow> Binary Multiply (extend e longint) (Number n longint) longint)"
  by (auto simp: scale_def new_Number_def longint_def split: expr.splits)

lemma subtract_operands_example:
  "subtract_operands (Identifier \<lparr>name = ''p'', stype = Scalar_type INT_spec 1, offset = 0\<rparr>)
       (Identifier \<lparr>name = ''q'', stype = Scalar_type INT_spec 1, offset = 0\<rparr>) =
     (Identifier \<lparr>name = ''p'', stype = Scalar_type INT_spec 1, offset = 0\<rparr>,
      Identifier \<lparr>name = ''q'', stype = Scalar_type INT_spec 1, offset = 0\<rparr>)"
  by code_simp

lemma subtract_operands_number:
  "subtract_operands (Identifier \<lparr>name = ''p'', stype = Scalar_type INT_spec 1, offset = 0\<rparr>)
       (Identifier \<lparr>name = ''i'', stype = Scalar_type INT_spec 0, offset = 0\<rparr>) =
     (Identifier \<lparr>name = ''p'', stype = Scalar_type INT_spec 1, offset = 0\<rparr>,
      Identifier \<lparr>name = ''i'', stype = Scalar_type INT_spec 0, offset = 0\<rparr>)"
  by code_simp

lemma subtract_operands_literal:
  "subtract_operands (Identifier \<lparr>name = ''p'', stype = Scalar_type INT_spec 1, offset = 0\<rparr>)
       (Number 3 (Scalar_type INT_spec 0)) =
     (Identifier \<lparr>name = ''p'', stype = Scalar_type INT_spec 1, offset = 0\<rparr>,
      Number 3 (Scalar_type INT_spec 0))"
  by code_simp

lemma subtract_operands_char:
  "subtract_operands (Identifier \<lparr>name = ''s'', stype = Scalar_type CHAR_spec 1, offset = 0\<rparr>)
       (Identifier \<lparr>name = ''i'', stype = Scalar_type INT_spec 0, offset = 0\<rparr>) =
     (Identifier \<lparr>name = ''s'', stype = Scalar_type CHAR_spec 1, offset = 0\<rparr>,
      Identifier \<lparr>name = ''i'', stype = Scalar_type INT_spec 0, offset = 0\<rparr>)"
  by code_simp

text \<open>
  Claim C1, as the source has it.  An operator check that gets an operand of error type
  returns a node of error type and reports nothing: \<open>checkNot\<close>, \<open>checkNegate\<close>,
  \<open>checkDereference\<close>, \<open>checkAddress\<close>, \<open>checkCast\<close>, \<open>checkTest\<close>, \<open>checkArray\<close>, the
  multiplicative, additive, relational, equality and logical checks; \<open>checkCall\<close> does
  so when the callee has the error type.  \<open>checkSizeof\<close> returns the literal 0.  An
  argument of error type in the place of a declared parameter is passed over by
  \<open>checkCall\<close>: when the callee is a function with as many parameters as there are
  arguments and every other argument is compatible with its parameter, the call has the
  return type of the callee and nothing is reported.
\<close>

theorem error_propagation:
  assumes "type_of e = error"
    and "type_of l = error \<or> type_of r = error"
    and "stype ident = error"
    and "stype fident = Function_type s n variadic types"
    and "length args = length types"
    and "\<forall>k < length types.
           type_of (args ! k) = error \<or> isCompatibleWith (types ! k) (type_of (decay (args ! k)))"
  shows "(type_of (fst (checkNot e ds)) = error \<and> snd (checkNot e ds) = ds) \<and>
    (type_of (fst (checkNegate e ds)) = error \<and> snd (checkNegate e ds) = ds) \<and>
    (\<exists>e'. checkDereference e ds = Some (e', ds) \<and> type_of e' = error) \<and>
    (type_of (fst (checkAddress e ds)) = error \<and> snd (checkAddress e ds) = ds) \<and>
    (type_of (fst (checkCast t e ds)) = error \<and> snd (checkCast t e ds) = ds) \<and>
    (type_of (fst (checkTest e ds)) = error \<and> snd (checkTest e ds) = ds) \<and>
    checkSizeof e ds = Some (new_Number 0, ds) \<and>
    (\<exists>e'. checkArray l r ds = Some (e', ds) \<and> type_of e' = error) \<and>
    (type_of (fst (checkMultiply l r ds)) = error \<and> snd (checkMultiply l r ds) = ds) \<and>
    (type_of (fst (checkDivide l r ds)) = error \<and> snd (checkDivide l r ds) = ds) \<and>
    (type_of (fst (checkRemainder l r ds)) = error \<and> snd (checkRemainder l r ds) = ds) \<and>
    (\<exists>e'. checkAdd l r ds = Some (e', ds) \<and> type_of e' = error) \<and>
    (\<exists>e'. checkSubtract l r ds = Some (e', ds) \<and> type_of e' = error) \<and>
    (type_of (fst (checkLessThan l r ds)) = error \<and> snd (checkLessThan l r ds) = ds) \<and>
    (type_of (fst (checkGreaterThan l r ds)) = error \<and> snd (checkGreaterThan l r ds) = ds) \<and>
    (type_of (fst (checkLessOrEqual l r ds)) = error \<and> snd (checkLessOrEqual l r ds) = ds) \<and>
    (type_of (fst (checkGreaterOrEqual l r ds)) = error \<and> snd (checkGreaterOrEqual l r ds) = ds) \<and>
    (type_of (fst (checkEqual l r ds)) = error \<and> snd (checkEqual l r ds) = ds) \<and>
    (type_of (fst (checkNotEqual l r ds)) = error \<and> snd (checkNotEqual l r ds) = ds) \<and>
    (type_of (fst (checkLogicalAnd l r ds)) = error \<and> snd (checkLogicalAnd l r ds) = ds) \<and>
    (type_of (fst (checkLogicalOr l r ds)) = error \<and> snd (checkLogicalOr l r ds) = ds) \<and>
    checkCall ident args ds = Some (Call ident args error, ds) \<and>
    (\<exists>args'. checkCall fident args ds = Some (Call fident args' (Scalar_type s n), ds))"
  using checkNot_error[OF assms(1), where ds=ds] checkNegate_error[OF assms(1), where ds=ds]
    checkDereference_error[OF assms(1), where ds=ds] checkAddress_error[OF assms(1), where ds=ds]
    checkCast_error[OF assms(1), where ds=ds and t=t] checkTest_error[OF assms(1), where ds=ds]
    checkSizeof_error[OF assms(1), where ds=ds]
    checkArray_error[OF assms(2), where ds=ds] multiplicative_error[OF assms(2), where ds=ds]
    checkAdd_error[OF assms(2), where ds=ds] checkSubtract_error[OF assms(2), where ds=ds]
    comparative_error[OF assms(2), where ds=ds] logical_error[OF assms(2), where ds=ds]
    checkCall_error_callee[OF assms(3), where ds=ds and args=args]
    checkCall_skips_error_arguments[OF assms(4,5,6), where ds=ds]
  by simp

theorem error_propagation_witness:
  "type_of (Identifier \<lparr>name = ''x'', stype = Error_type, offset = 0\<rparr>) = error \<and>
   stype \<lparr>name = ''x'', stype = Error_type, offset = 0\<rparr> = error \<and>
   stype \<lparr>name = ''f'', stype = Function_type INT_spec 0 False [Scalar_type INT_spec 0], offset = 0\<rparr>
     = Function_type INT_spec 0 False [Scalar_type INT_spec 0] \<and>
   length [Identifier \<lparr>name = ''x'', stype = Error_type, offset = 0\<rparr>]
     = length [Scalar_type INT_spec 0] \<and>
   type_of (fst (checkNot (Identifier \<lparr>name = ''x'', stype = Error_type, offset = 0\<rparr>) [])) = error \<and>
   type_of (fst (checkMultiply (Identifier \<lparr>name = ''x'', stype = Error_type, offset = 0\<rparr>)
                  (Number 1 integer) [])) = error \<and>
   (\<exists>args'. checkCall
       \<lparr>name = ''f'', stype = Function_type INT_spec 0 False [Scalar_type INT_spec 0], offset = 0\<rparr>
       [Identifier \<lparr>name = ''x'', stype = Error_type, offset = 0\<rparr>] [] =
     Some (Call
       \<lparr>name = ''f'', stype = Function_type INT_spec 0 False [Scalar_type INT_spec 0], offset = 0\<rparr>
       args' (Scalar_type INT_spec 0), []))"
  using error_propagation[of "Identifier \<lparr>name = ''x'', stype = Error_type, offset = 0\<rparr>"
      "Identifier \<lparr>name = ''x'', stype = Error_type, offset = 0\<rparr>" "Number 1 integer"
      "\<lparr>name = ''x'', stype = Error_type, offset = 0\<rparr>"
      "\<lparr>name = ''f'', stype = Function_type INT_spec 0 False [Scalar_type INT_spec 0], offset = 0\<rparr>"
      INT_spec 0 False "[Scalar_type INT_spec 0]"
      "[Identifier \<lparr>name = ''x'', stype = Error_type, offset = 0\<rparr>]" "[]"]
  by (simp add: error_def)

text \<open>
  Claim C1, as stated, fails: \<open>f\<close> is declared as \<open>int f(int)\<close> and is called with one
  argument, an identifier of error type; the call node has type \<open>int\<close>.
\<close>

theorem checkCall_error_argument_counterexample:
  "type_of (Identifier \<lparr>name = ''x'', stype = Error_type, offset = 0\<rparr>) = Error_type \<and>
   checkCall
       \<lparr>name = ''f'', stype = Function_type INT_spec 0 False [Scalar_type INT_spec 0], offset = 0\<rparr>
       [Identifier \<lparr>name = ''x'', stype = Error_type, offset = 0\<rparr>] [] =
     Some (Call
       \<lparr>name = ''f'', stype = Function_type INT_spec 0 False [Scalar_type INT_spec 0], offset = 0\<rparr>
       [Identifier \<lparr>name = ''x'', stype = Error_type, offset = 0\<rparr>] (Scalar_type INT_spec 0), []) \<and>
   kind (Scalar_type INT_spec 0) \<noteq> ERROR"
  by code_simp

text \<open>
  Claim C2.  When the two operands of a subtraction, after the conversions of
  \<open>checkSubtract\<close>, have equal pointer types, the node returned divides their
  difference, of type long, by the literal size of the type pointed to, and has type
  long.  When the left one has a pointer type and the right one a numeric type, the
  difference has the pointer type and its right operand is the right one scaled by
  that size: a literal becomes the literal of type long whose value is the product of
  its value and the size; any other operand is widened to long (a literal of type
  \<open>int\<close> becomes the literal of type long, an operand of type long is left as it
  is, any other is cast to long) and then, unless the size is 1, multiplied by the
  literal size, the product having type long.  In both cases nothing is reported.
\<close>

theorem checkSubtract_pointers:
  assumes "subtract_operands left right = (left1, right1)"
  shows "(isPointer (type_of left1) \<and> Type_eq (type_of left1) (type_of right1) \<longrightarrow>
            (\<exists>d n. Type_dereference (type_of left1) = Some d \<and> Type_size d = Some n \<and>
               checkSubtract left right ds =
                 Some (Binary Divide (Binary Subtract left1 right1 longint) (new_Number n) longint, ds)))
       \<and> (isPointer (type_of left1) \<and> isNumeric (type_of right1) \<longrightarrow>
            (\<exists>d n. Type_dereference (type_of left1) = Some d \<and> Type_size d = Some n \<and>
               (let widened =
                      (if type_of right1 = longint then right1
                       else case right1 of
                              Number v t \<Rightarrow>
                                if t = integer then Number v longint
                                else Unary Cast right1 longint
                            | _ \<Rightarrow> Unary Cast right1 longint);
                    scaled =
                      (if n = 1 then widened
                       else case right1 of
                              Number v t \<Rightarrow> Number (v * n) longint
                            | _ \<Rightarrow> Binary Multiply widened (Number n longint) longint)
                in checkSubtract left right ds =
                     Some (Binary Subtract left1 scaled (type_of left1), ds))))"
proof (intro conjI impI)
  assume a: "isPointer (type_of left1) \<and> Type_eq (type_of left1) (type_of right1)"
  then obtain d n where dn: "Type_dereference (type_of left1) = Some d" "Type_size d = Some n"
      "dereference_size (type_of left1) = Some n"
    using pointer_element_size by blast
  have ne: "type_of left1 \<noteq> Error_type" "\<not> isNumeric (type_of left1)"
    using a by (cases "type_of left1"; auto)+
  have "checkSubtract left right ds =
      Some (Binary Divide (Binary Subtract left1 right1 longint) (new_Number n) longint, ds)"
    using a dn ne assms
    by (auto simp: checkSubtract_def Let_def error_def Type_ne_error Type_eq_iff)
  then show "\<exists>d n. Type_dereference (type_of left1) = Some d \<and> Type_size d = Some n \<and>
               checkSubtract left right ds =
                 Some (Binary Divide (Binary Subtract left1 right1 longint) (new_Number n) longint, ds)"
    using dn by blast
next
  assume a: "isPointer (type_of left1) \<and> isNumeric (type_of right1)"
  then obtain d n where dn: "Type_dereference (type_of left1) = Some d" "Type_size d = Some n"
      "dereference_size (type_of left1) = Some n" "n = 1 \<or> n = 4 \<or> n = 8"
    using pointer_element_size by blast
  have ne: "type_of left1 \<noteq> Error_type" "\<not> isNumeric (type_of left1)" "type_of right1 \<noteq> Error_type"
      "type_of left1 \<noteq> type_of right1"
    using a by (cases "type_of left1"; cases "type_of right1"; auto)+
  have c: "checkSubtract left right ds =
      Some (Binary Subtract left1 (scale right1 (ucast n)) (type_of left1), ds)"
    using a dn(1,2,3) ne assms
    by (auto simp: checkSubtract_def Let_def error_def Type_ne_error Type_eq_iff)
  have w: "extend right1 longint =
      (if type_of right1 = longint then right1
       else case right1 of
              Number v t \<Rightarrow> if t = integer then Number v longint else Unary Cast right1 longint
            | _ \<Rightarrow> Unary Cast right1 longint)"
    using a by (simp add: extend_long_numeric)
  have "let widened =
              (if type_of right1 = longint then right1
               else case right1 of
                      Number v t \<Rightarrow>
                        if t = integer then Number v longint
                        else Unary Cast right1 longint
                    | _ \<Rightarrow> Unary Cast right1 longint);
            scaled =
              (if n = 1 then widened
               else case right1 of
                      Number v t \<Rightarrow> Number (v * n) longint
                    | _ \<Rightarrow> Binary Multiply widened (Number n longint) longint)
        in checkSubtract left right ds =
             Some (Binary Subtract left1 scaled (type_of left1), ds)"
    unfolding Let_def c scale_element_size[OF dn(4)] w by (rule refl)
  then show "\<exists>d n. Type_dereference (type_of left1) = Some d \<and> Type_size d = Some n \<and>
               (let widened =
                      (if type_of right1 = longint then right1
                       else case right1 of
                              Number v t \<Rightarrow>
                                if t = integer then Number v longint
                                else Unary Cast right1 longint
                            | _ \<Rightarrow> Unary Cast right1 longint);
                    scaled =
                      (if n = 1 then widened
                       else case right1 of
                              Number v t \<Rightarrow> Number (v * n) longint
                            | _ \<Rightarrow> Binary Multiply widened (Number n longint) longint)
                in checkSubtract left right ds =
                     Some (Binary Subtract left1 scaled (type_of left1), ds))"
    using dn(1,2) by blast
qed

theorem checkSubtract_pointers_witness:
  "subtract_operands (Identifier \<lparr>name = ''p'', stype = Scalar_type INT_spec 1, offset = 0\<rparr>)
       (Identifier \<lparr>name = ''q'', stype = Scalar_type INT_spec 1, offset = 0\<rparr>) =
     (Identifier \<lparr>name = ''p'', stype = Scalar_type INT_spec 1, offset = 0\<rparr>,
      Identifier \<lparr>name = ''q'', stype = Scalar_type INT_spec 1, offset = 0\<rparr>) \<and>
   isPointer (Scalar_type INT_spec 1) \<and>
   Type_eq (Scalar_type INT_spec 1) (Scalar_type INT_spec 1) \<and>
   checkSubtract (Identifier \<lparr>name = ''p'', stype = Scalar_type INT_spec 1, offset = 0\<rparr>)
       (Identifier \<lparr>name = ''q'', stype = Scalar_type INT_spec 1, offset = 0\<rparr>) [] =
     Some (Binary Divide
             (Binary Subtract (Identifier \<lparr>name = ''p'', stype = Scalar_type INT_spec 1, offset = 0\<rparr>)
                (Identifier \<lparr>name = ''q'', stype = Scalar_type INT_spec 1, offset = 0\<rparr>) longint)
             (new_Number 4) longint, []) \<and>
   subtract_operands (Identifier \<lparr>name = ''p'', stype = Scalar_type INT_spec 1, offset = 0\<rparr>)
       (Identifier \<lparr>name = ''i'', stype = Scalar_type INT_spec 0, offset = 0\<rparr>) =
     (Identifier \<lparr>name = ''p'', stype = Scalar_type INT_spec 1, offset = 0\<rparr>,
      Identifier \<lparr>name = ''i'', stype = Scalar_type INT_spec 0, offset = 0\<rparr>) \<and>
   isNumeric (Scalar_type INT_spec 0) \<and>
   checkSubtract (Identifier \<lparr>name = ''p'', stype = Scalar_type INT_spec 1, offset = 0\<rparr>)
       (Identifier \<lparr>name = ''i'', stype = Scalar_type INT_spec 0, offset = 0\<rparr>) [] =
     Some (Binary Subtract (Identifier \<lparr>name = ''p'', stype = Scalar_type INT_spec 1, offset = 0\<rparr>)
             (Binary Multiply
                (Unary Cast (Identifier \<lparr>name = ''i'', stype = Scalar_type INT_spec 0, offset = 0\<rparr>)
                   (Scalar_type LONG_spec 0))
                (Number 4 (Scalar_type LONG_spec 0)) (Scalar_type LONG_spec 0))
             (Scalar_type INT_spec 1), []) \<and>
   subtract_operands (Identifier \<lparr>name = ''p'', stype = Scalar_type INT_spec 1, offset = 0\<rparr>)
       (Number 3 (Scalar_type INT_spec 0)) =
     (Identifier \<lparr>name = ''p'', stype = Scalar_type INT_spec 1, offset = 0\<rparr>,
      Number 3 (Scalar_type INT_spec 0)) \<and>
   checkSubtract (Identifier \<lparr>name = ''p'', stype = Scalar_type INT_spec 1, offset = 0\<rparr>)
       (Number 3 (Scalar_type INT_spec 0)) [] =
     Some (Binary Subtract (Identifier \<lparr>name = ''p'', stype = Scalar_type INT_spec 1, offset = 0\<rparr>)
             (Number 12 (Scalar_type LONG_spec 0)) (Scalar_type INT_spec 1), []) \<and>
   subtract_operands (Identifier \<lparr>name = ''s'', stype = Scalar_type CHAR_spec 1, offset = 0\<rparr>)
       (Identifier \<lparr>name = ''i'', stype = Scalar_type INT_spec 0, offset = 0\<rparr>) =
     (Identifier \<lparr>name = ''s'', stype = Scalar_type CHAR_spec 1, offset = 0\<rparr>,
      Identifier \<lparr>name = ''i'', stype = Scalar_type INT_spec 0, offset = 0\<rparr>) \<and>
   isPointer (Scalar_type CHAR_spec 1) \<and>
   checkSubtract (Identifier \<lparr>name = ''s'', stype = Scalar_type CHAR_spec 1, offset = 0\<rparr>)
       (Identifier \<lparr>name = ''i'', stype = Scalar_type INT_spec 0, offset = 0\<rparr>) [] =
     Some (Binary Subtract (Identifier \<lparr>name = ''s'', stype = Scalar_type CHAR_spec 1, offset = 0\<rparr>)
             (Unary Cast (Identifier \<lparr>name = ''i'', stype = Scalar_type INT_spec 0, offset = 0\<rparr>)
                (Scalar_type LONG_spec 0))
             (Scalar_type CHAR_spec 1), [])"
  using checkSubtract_pointers[OF subtract_operands_example, of "[]"] subtract_operands_example
    checkSubtract_pointers[OF subtract_operands_number, of "[]"] subtract_operands_number
    checkSubtract_pointers[OF subtract_operands_literal, of "[]"] subtract_operands_literal
    checkSubtract_pointers[OF subtract_operands_char, of "[]"] subtract_operands_char
  by (simp add: unit_size_def SIZEOF_INT_def SIZEOF_CHAR_def longint_def integer_def Let_def)

section \<open>Properties of the allocator\<close>

lemma c_rem_zero_iff: "c_rem a 8 = 0 \<longleftrightarrow> a mod 8 = 0"
  by (auto simp: c_rem_def sgn_if)

lemma param_align_multiple: "param_align (8 * q) = 8 * q"
  by (subst param_align.simps) (simp add: c_rem_zero_iff PARAM_ALIGNMENT_def)

lemma param_align_step:
  assumes "k mod 8 \<noteq> 0" "j = k + 1" "param_align j = r"
  shows "param_align k = r"
  using assms by (subst param_align.simps) (simp add: c_rem_zero_iff PARAM_ALIGNMENT_def)

lemma param_align_between:
  "param_align (8 * q + 8) = 8 * q + 8"
  "param_align (8 * q + 4) = 8 * q + 8"
  "param_align (8 * q + 1) = 8 * q + 8"
proof -
  have e: "8 * q + 8 = 8 * (q + 1)" by simp
  show p8: "param_align (8 * q + 8) = 8 * q + 8"
    by (simp only: e param_align_multiple)
  have p7: "param_align (8 * q + 7) = 8 * q + 8"
    by (rule param_align_step[OF _ _ p8]) simp_all
  have p6: "param_align (8 * q + 6) = 8 * q + 8"
    by (rule param_align_step[OF _ _ p7]) simp_all
  have p5: "param_align (8 * q + 5) = 8 * q + 8"
    by (rule param_align_step[OF _ _ p6]) simp_all
  show p4: "param_align (8 * q + 4) = 8 * q + 8"
    by (rule param_align_step[OF _ _ p5]) simp_all
  have p3: "param_align (8 * q + 3) = 8 * q + 8"
    by (rule param_align_step[OF _ _ p4]) simp_all
  have p2: "param_align (8 * q + 2) = 8 * q + 8"
    by (rule param_align_step[OF _ _ p3]) simp_all
  show "param_align (8 * q + 1) = 8 * q + 8"
    by (rule param_align_step[OF _ _ p2]) simp_all
qed

lemma int32_id: "- (2 ^ 31) \<le> x \<Longrightarrow> x < 2 ^ 31 \<Longrightarrow> int32 x = x"
  by (simp add: int32_def)

lemma scalar_size_cases:
  "isScalar t \<Longrightarrow> Type_size t = Some n \<Longrightarrow> uint n = 1 \<or> uint n = 4 \<or> uint n = 8"
  by (cases t) (auto simp: isScalar_def unit_size_def SIZEOF_PTR_def SIZEOF_CHAR_def SIZEOF_INT_def SIZEOF_LONG_def split: if_splits)

lemma scalar_size_defined: "isScalar t \<Longrightarrow> \<exists>n. Type_size t = Some n"
  by (cases t) (auto simp: isScalar_def)

lemma stack_slot_step:
  assumes "m = 1 \<or> m = 4 \<or> m = 8" "off mod 8 = 0" "0 \<le> off" "off < 2 ^ 30"
  shows "param_align (int32 (off + m)) = off + 8"
proof -
  have i: "int32 (off + m) = off + m" using assms by (intro int32_id) auto
  obtain q where q: "off = 8 * q" using assms(2) by (metis mod_eq_0_iff_dvd dvd_def)
  have "param_align (8 * q + m) = 8 * q + 8"
    using assms(1) param_align_between[of q] by auto
  then show ?thesis using i q by simp
qed

lemma stack_params_offsets:
  assumes "list_all isScalar types" "length types \<le> length symbols" "length types < 2 ^ 26"
    "6 \<le> i" "off = 16 + 8 * (int i - 6)"
  shows "\<exists>symbols' off'. stack_params types i symbols off = Some (symbols', off') \<and>
           length symbols' = length symbols \<and>
           (\<forall>k < length symbols.
              symbols' ! k = (if i \<le> k \<and> k < length types
                              then (symbols ! k)\<lparr>offset := 16 + 8 * (int k - 6)\<rparr>
                              else symbols ! k))"
  using assms
proof (induction types i symbols off rule: stack_params.induct)
  case (1 types i symbols off)
  show ?case
  proof (cases "i < length types")
    case False
    then show ?thesis by (subst stack_params.simps) simp
  next
    case True
    then have il: "i < length symbols" using "1.prems"(2) by simp
    have sc: "isScalar (types ! i)" using "1.prems"(1) True by (simp add: list_all_length)
    then obtain n where n: "Type_size (types ! i) = Some n" using scalar_size_defined by blast
    have m: "uint n = 1 \<or> uint n = 4 \<or> uint n = 8" using scalar_size_cases[OF sc n] .
    have offb: "off mod 8 = 0" "0 \<le> off" "off < 2 ^ 30"
      using "1.prems"(3,4,5) True by auto
    have step: "param_align (int32 (off + uint n)) = 16 + 8 * (int (i + 1) - 6)"
      using stack_slot_step[OF m offb] "1.prems"(5) by simp
    let ?symbols1 = "symbols[i := (symbols ! i)\<lparr>offset := off\<rparr>]"
    obtain symbols' off' where r:
      "stack_params types (i + 1) ?symbols1 (param_align (int32 (off + uint n))) = Some (symbols', off')"
      "length symbols' = length ?symbols1"
      "\<forall>k < length ?symbols1. symbols' ! k = (if i + 1 \<le> k \<and> k < length types
                              then (?symbols1 ! k)\<lparr>offset := 16 + 8 * (int k - 6)\<rparr>
                              else ?symbols1 ! k)"
      using "1.IH"[OF True il n] "1.prems"(1,2,3,4) step by auto
    have "stack_params types i symbols off = Some (symbols', off')"
      using True il n r(1) by (subst stack_params.simps) simp
    moreover have "\<forall>k < length symbols.
              symbols' ! k = (if i \<le> k \<and> k < length types
                              then (symbols ! k)\<lparr>offset := 16 + 8 * (int k - 6)\<rparr>
                              else symbols ! k)"
    proof (intro allI impI)
      fix k assume k: "k < length symbols"
      show "symbols' ! k = (if i \<le> k \<and> k < length types
                              then (symbols ! k)\<lparr>offset := 16 + 8 * (int k - 6)\<rparr>
                              else symbols ! k)"
        using r(3) k True il "1.prems"(5)
        by (cases "k = i") (auto simp: nth_list_update)
    qed
    ultimately show ?thesis using r(2) by simp
  qed
qed


lemma sizes_nth:
  assumes "map Type_size types = map Some sizes" "i < length types"
  shows "Type_size (types ! i) = Some (sizes ! i)" "length sizes = length types"
proof -
  show l: "length sizes = length types" using assms(1) by (metis length_map)
  have "map Type_size types ! i = map Some sizes ! i" using assms(1) by simp
  then show "Type_size (types ! i) = Some (sizes ! i)" using assms(2) l by simp
qed

lemma scalar_sizes_bounds:
  assumes "list_all isScalar types" "map Type_size types = map Some sizes" "i \<le> length types"
  shows "int i \<le> sum_list (map uint (take i sizes)) \<and> sum_list (map uint (take i sizes)) \<le> 8 * int i"
  using assms(3)
proof (induction i)
  case 0
  then show ?case by simp
next
  case (Suc i)
  then have i: "i < length types" by simp
  have sc: "isScalar (types ! i)" using assms(1) i by (simp add: list_all_length)
  have m: "uint (sizes ! i) = 1 \<or> uint (sizes ! i) = 4 \<or> uint (sizes ! i) = 8"
    using scalar_size_cases[OF sc sizes_nth(1)[OF assms(2) i]] .
  have "take (Suc i) sizes = take i sizes @ [sizes ! i]"
    using i sizes_nth(2)[OF assms(2) i] by (simp add: take_Suc_conv_app_nth)
  then show ?case using Suc.IH i m by auto
qed

lemma reg_params_offsets:
  assumes "list_all isScalar types" "map Type_size types = map Some sizes"
    "length types \<le> length symbols" "i \<le> length types"
    "off = - sum_list (map uint (take i sizes))"
  shows "\<exists>symbols' off'. reg_params types i symbols off = Some (symbols', off') \<and>
           length symbols' = length symbols \<and>
           (\<forall>k < length symbols.
              symbols' ! k = (if i \<le> k \<and> k < length types \<and> k < NUM_PARAM_REGS
                              then (symbols ! k)\<lparr>offset := - sum_list (map uint (take (Suc k) sizes))\<rparr>
                              else symbols ! k))"
  using assms
proof (induction types i symbols off rule: reg_params.induct)
  case (1 types i symbols off)
  show ?case
  proof (cases "i < NUM_PARAM_REGS \<and> i < length types")
    case False
    then show ?thesis by (subst reg_params.simps) auto
  next
    case True
    then have ir: "i < NUM_PARAM_REGS" and it: "i < length types" by auto
    have il: "i < length symbols" using "1.prems"(3) it by simp
    have n: "Type_size (types ! i) = Some (sizes ! i)" using sizes_nth(1)[OF "1.prems"(2) it] .
    have ls: "length sizes = length types" using sizes_nth(2)[OF "1.prems"(2) it] .
    have tk: "take (Suc i) sizes = take i sizes @ [sizes ! i]"
      using it ls by (simp add: take_Suc_conv_app_nth)
    have b: "int (Suc i) \<le> sum_list (map uint (take (Suc i) sizes))"
        "sum_list (map uint (take (Suc i) sizes)) \<le> 8 * int (Suc i)"
      using scalar_sizes_bounds[OF "1.prems"(1,2), of "Suc i"] it by auto
    have "i < 6" using ir by (simp add: NUM_PARAM_REGS_def)
    then have off1: "int32 (off - uint (sizes ! i)) = - sum_list (map uint (take (Suc i) sizes))"
      using b tk "1.prems"(5) by (subst int32_id) auto
    let ?off1 = "int32 (off - uint (sizes ! i))"
    let ?symbols1 = "symbols[i := (symbols ! i)\<lparr>offset := ?off1\<rparr>]"
    obtain symbols' off' where r:
      "reg_params types (i + 1) ?symbols1 ?off1 = Some (symbols', off')"
      "length symbols' = length ?symbols1"
      "\<forall>k < length ?symbols1. symbols' ! k = (if i + 1 \<le> k \<and> k < length types \<and> k < NUM_PARAM_REGS
                              then (?symbols1 ! k)\<lparr>offset := - sum_list (map uint (take (Suc k) sizes))\<rparr>
                              else ?symbols1 ! k)"
      using "1.IH"[OF ir it il n refl] "1.prems"(1,2,3) it off1 by auto
    have "reg_params types i symbols off = Some (symbols', off')"
      using ir it il n r(1) by (subst reg_params.simps) (simp add: Let_def)
    moreover have "\<forall>k < length symbols.
              symbols' ! k = (if i \<le> k \<and> k < length types \<and> k < NUM_PARAM_REGS
                              then (symbols ! k)\<lparr>offset := - sum_list (map uint (take (Suc k) sizes))\<rparr>
                              else symbols ! k)"
    proof (intro allI impI)
      fix k assume k: "k < length symbols"
      show "symbols' ! k = (if i \<le> k \<and> k < length types \<and> k < NUM_PARAM_REGS
                              then (symbols ! k)\<lparr>offset := - sum_list (map uint (take (Suc k) sizes))\<rparr>
                              else symbols ! k)"
        using r(3) k ir it il off1
        by (cases "k = i") (auto simp: nth_list_update)
    qed
    ultimately show ?thesis using r(2) by simp
  qed
qed

lemma allocate_symbols_keeps:
  "allocate_symbols ss off = Some (ss', off') \<Longrightarrow>
   length ss' = length ss \<and> (\<forall>k < length ss. offset (ss ! k) \<noteq> 0 \<longrightarrow> ss' ! k = ss ! k)"
proof (induction ss arbitrary: off ss' off')
  case Nil
  then show ?case by simp
next
  case (Cons a ss)
  show ?case
  proof (cases "offset a = 0")
    case True
    then obtain n ss1 where n: "Type_size (stype a) = Some n"
      and r: "allocate_symbols ss (int32 (off - uint n)) = Some (ss1, off')"
      and e: "ss' = a\<lparr>offset := int32 (off - uint n)\<rparr> # ss1"
      using Cons.prems by (auto simp: Let_def split: option.splits)
    show ?thesis using Cons.IH[OF r] e True by (auto simp: nth_Cons split: nat.splits)
  next
    case False
    then obtain ss1 where r: "allocate_symbols ss off = Some (ss1, off')" and e: "ss' = a # ss1"
      using Cons.prems by (auto split: option.splits)
    show ?thesis using Cons.IH[OF r] e by (auto simp: nth_Cons split: nat.splits)
  qed
qed

lemma f_allocate:
  "Function_allocate (Function f_symbol (Block f_decls [])) (2 * SIZEOF_REG) =
     Some (Function f_symbol
             (Block [\<lparr>name = ''x'', stype = integer, offset = - 4\<rparr>,
                     \<lparr>name = ''y'', stype = integer, offset = - 8\<rparr>,
                     \<lparr>name = ''z'', stype = integer, offset = - 12\<rparr>,
                     \<lparr>name = ''w'', stype = integer, offset = - 16\<rparr>,
                     \<lparr>name = ''u'', stype = integer, offset = - 20\<rparr>,
                     \<lparr>name = ''v'', stype = integer, offset = - 24\<rparr>,
                     \<lparr>name = ''k'', stype = integer, offset = 16\<rparr>] []), - 24)"
  by code_simp

text \<open>
  Claim C3.  \<open>Function::allocate\<close> runs with the offset \<open>2 * SIZEOF_REG = 16\<close> on a
  function whose parameters are scalars (the parser builds no other parameter), and
  whose body declares them first.  Then the parameter \<open>i\<close> below \<open>NUM_PARAM_REGS\<close>
  has the negative offset \<open>- (size t\<^sub>0 + \<dots> + size t\<^sub>i)\<close>, and every parameter \<open>i\<close>
  from \<open>NUM_PARAM_REGS\<close> on has the offset \<open>16 + 8 * (i - NUM_PARAM_REGS)\<close>: positive,
  a multiple of 8, starting at 16 and increasing in the order of declaration.
\<close>

theorem Function_allocate_parameters:
  assumes "stype ident = Function_type s n v types"
    and "list_all isScalar types"
    and "map Type_size types = map Some sizes"
    and "length types \<le> length decls"
    and "length types < 2 ^ 26"
    and "Function_allocate (Function ident (Block decls stmts)) (2 * SIZEOF_REG) = Some (f', off')"
  shows "\<exists>decls' stmts'. f' = Function ident (Block decls' stmts') \<and>
           length decls' = length decls \<and>
           (\<forall>i < length types.
              (i < NUM_PARAM_REGS \<longrightarrow>
                 offset (decls' ! i) = - sum_list (map uint (take (Suc i) sizes))) \<and>
              (NUM_PARAM_REGS \<le> i \<longrightarrow>
                 offset (decls' ! i) = 16 + 8 * (int i - int NUM_PARAM_REGS) \<and>
                 0 < offset (decls' ! i) \<and> 8 dvd offset (decls' ! i) \<and>
                 (\<forall>j. NUM_PARAM_REGS \<le> j \<and> j < i \<longrightarrow> offset (decls' ! j) < offset (decls' ! i))))"
proof -
  obtain symbols1 off1 where s1: "stack_params types NUM_PARAM_REGS decls 16 = Some (symbols1, off1)"
    and l1: "length symbols1 = length decls"
    and o1: "\<forall>k < length decls.
              symbols1 ! k = (if 6 \<le> k \<and> k < length types
                              then (decls ! k)\<lparr>offset := 16 + 8 * (int k - 6)\<rparr>
                              else decls ! k)"
    using stack_params_offsets[OF assms(2,4,5), of 6 16] by (auto simp: NUM_PARAM_REGS_def)
  obtain symbols2 off2 where s2: "reg_params types 0 symbols1 0 = Some (symbols2, off2)"
    and l2: "length symbols2 = length symbols1"
    and o2: "\<forall>k < length symbols1.
              symbols2 ! k = (if 0 \<le> k \<and> k < length types \<and> k < NUM_PARAM_REGS
                              then (symbols1 ! k)\<lparr>offset := - sum_list (map uint (take (Suc k) sizes))\<rparr>
                              else symbols1 ! k)"
    using reg_params_offsets[OF assms(2,3), of symbols1 0 0] assms(4) l1 by auto
  obtain body1 where b: "allocate (Block symbols2 stmts) off2 = Some (body1, off')"
    and f: "f' = Function ident body1"
    using assms(1,6) s1 s2 by (auto simp: SIZEOF_REG_def split: option.splits)
  obtain decls' stmts' off3 where d: "allocate_symbols symbols2 off2 = Some (decls', off3)"
    and b1: "body1 = Block decls' stmts'"
    using b by (auto split: option.splits)
  have keep: "length decls' = length symbols2"
    "\<forall>k < length symbols2. offset (symbols2 ! k) \<noteq> 0 \<longrightarrow> decls' ! k = symbols2 ! k"
    using allocate_symbols_keeps[OF d] by auto
  have main: "(i < NUM_PARAM_REGS \<longrightarrow>
                 offset (decls' ! i) = - sum_list (map uint (take (Suc i) sizes))) \<and>
              (NUM_PARAM_REGS \<le> i \<longrightarrow>
                 offset (decls' ! i) = 16 + 8 * (int i - int NUM_PARAM_REGS))"
    if i: "i < length types" for i
  proof (cases "i < NUM_PARAM_REGS")
    case True
    have pos: "int (Suc i) \<le> sum_list (map uint (take (Suc i) sizes))"
      using scalar_sizes_bounds[OF assms(2,3), of "Suc i"] i by auto
    have "offset (symbols2 ! i) = - sum_list (map uint (take (Suc i) sizes))"
      using o2 i True assms(4) l1 by auto
    moreover then have "offset (symbols2 ! i) \<noteq> 0" using pos by auto
    ultimately show ?thesis using keep i True assms(4) l1 l2 by auto
  next
    case False
    then have i6: "6 \<le> i" by (simp add: NUM_PARAM_REGS_def)
    have "symbols2 ! i = symbols1 ! i" using o2 i False assms(4) l1 by auto
    then have "offset (symbols2 ! i) = 16 + 8 * (int i - 6)"
      using o1 i i6 assms(4) by auto
    moreover then have "offset (symbols2 ! i) \<noteq> 0" using i6 by auto
    ultimately show ?thesis using keep i False assms(4) l1 l2 by (auto simp: NUM_PARAM_REGS_def)
  qed
  have "\<forall>i < length types.
              (i < NUM_PARAM_REGS \<longrightarrow>
                 offset (decls' ! i) = - sum_list (map uint (take (Suc i) sizes))) \<and>
              (NUM_PARAM_REGS \<le> i \<longrightarrow>
                 offset (decls' ! i) = 16 + 8 * (int i - int NUM_PARAM_REGS) \<and>
                 0 < offset (decls' ! i) \<and> 8 dvd offset (decls' ! i) \<and>
                 (\<forall>j. NUM_PARAM_REGS \<le> j \<and> j < i \<longrightarrow> offset (decls' ! j) < offset (decls' ! i)))"
  proof (intro allI impI)
    fix i assume i: "i < length types"
    have "0 < offset (decls' ! i) \<and> 8 dvd offset (decls' ! i) \<and>
                 (\<forall>j. NUM_PARAM_REGS \<le> j \<and> j < i \<longrightarrow> offset (decls' ! j) < offset (decls' ! i))"
      if r: "NUM_PARAM_REGS \<le> i"
    proof -
      have oi: "offset (decls' ! i) = 16 + 8 * (int i - int NUM_PARAM_REGS)" using main[OF i] r by simp
      have "offset (decls' ! j) < offset (decls' ! i)" if "NUM_PARAM_REGS \<le> j \<and> j < i" for j
        using main[of j] that i oi by auto
      then show ?thesis using oi r by auto
    qed
    then show "(i < NUM_PARAM_REGS \<longrightarrow>
                 offset (decls' ! i) = - sum_list (map uint (take (Suc i) sizes))) \<and>
              (NUM_PARAM_REGS \<le> i \<longrightarrow>
                 offset (decls' ! i) = 16 + 8 * (int i - int NUM_PARAM_REGS) \<and>
                 0 < offset (decls' ! i) \<and> 8 dvd offset (decls' ! i) \<and>
                 (\<forall>j. NUM_PARAM_REGS \<le> j \<and> j < i \<longrightarrow> offset (decls' ! j) < offset (decls' ! i)))"
      using main[OF i] by blast
  qed
  then show ?thesis using f b1 keep(1) l1 l2 by auto
qed

theorem Function_allocate_parameters_witness:
  "stype f_symbol = Function_type INT_spec 0 False seven_ints \<and>
   list_all isScalar seven_ints \<and>
   map Type_size seven_ints = map Some [4, 4, 4, 4, 4, 4, 4] \<and>
   length seven_ints \<le> length f_decls \<and>
   length seven_ints < 2 ^ 26 \<and>
   Function_allocate (Function f_symbol (Block f_decls [])) (2 * SIZEOF_REG) =
     Some (Function f_symbol
             (Block [\<lparr>name = ''x'', stype = integer, offset = - 4\<rparr>,
                     \<lparr>name = ''y'', stype = integer, offset = - 8\<rparr>,
                     \<lparr>name = ''z'', stype = integer, offset = - 12\<rparr>,
                     \<lparr>name = ''w'', stype = integer, offset = - 16\<rparr>,
                     \<lparr>name = ''u'', stype = integer, offset = - 20\<rparr>,
                     \<lparr>name = ''v'', stype = integer, offset = - 24\<rparr>,
                     \<lparr>name = ''k'', stype = integer, offset = 16\<rparr>] []), - 24)"
proof -
  have h1: "stype f_symbol = Function_type INT_spec 0 False seven_ints" by (simp add: f_symbol_def)
  have h2: "list_all isScalar seven_ints" by (simp add: seven_ints_def integer_def isScalar_def)
  have h3: "map Type_size seven_ints = map Some [4, 4, 4, 4, 4, 4, 4]"
    by (simp add: seven_ints_def integer_def unit_size_def SIZEOF_INT_def)
  have h4: "length seven_ints \<le> length f_decls" by (simp add: seven_ints_def f_decls_def)
  have h5: "length seven_ints < 2 ^ 26" by (simp add: seven_ints_def)
  show ?thesis
    using Function_allocate_parameters[OF h1 h2 h3 h4 h5 f_allocate] h1 h2 h3 h4 h5 f_allocate
    by simp
qed

section \<open>Properties of the generator\<close>

lemma assign_fields [simp]:
  "out (assign e r st) = out st"
  "gen_offset (assign e r st) = gen_offset st"
  "expr_offset (assign e r st) = expr_offset st"
  by (auto simp: assign_def Let_def split: option.splits prod.splits)

lemma emit_fields [simp]:
  "out (emit i st) = out st @ [i]"
  "gen_offset (emit i st) = gen_offset st"
  "expr_offset (emit i st) = expr_offset st"
  "node (emit i st) = node st"
  "reg (emit i st) = reg st"
  by (simp_all add: emit_def)

lemma assign_binds:
  "map_option fst (node st r) \<noteq> Some p \<Longrightarrow>
   reg (assign (Some (p, y)) (Some r) st) p = Some r \<and>
   node (assign (Some (p, y)) (Some r) st) r = Some (p, y)"
  by (auto simp: assign_def Let_def split: option.splits prod.splits)

lemma assign_detach_reg:
  "node (assign None (Some r) st) r = None"
  by (auto simp: assign_def Let_def split: option.splits prod.splits)

lemma print_expr_cong:
  "reg st' = reg st \<Longrightarrow> node st' = node st \<Longrightarrow> expr_offset st' p = expr_offset st p \<Longrightarrow>
   print_expr st' (p, y) = print_expr st (p, y)"
  by (cases y) (auto simp: print_expr_def print_reg_def split: option.splits)

lemma spill_free: "node st r = None \<Longrightarrow> spill r st = Some st"
  by (simp add: spill_def)

lemma spill_held:
  assumes "node st r = Some (q, x)" "Type_size (type_of x) = Some n"
  shows "spill r st =
     Some (emit (Instr (''mov'' @ suffix n) [Reg (reg_name r (ucast n)), Frame (int32 (gen_offset st - uint n))])
            (st\<lparr>gen_offset := int32 (gen_offset st - uint n),
                expr_offset := (expr_offset st)(q := int32 (gen_offset st - uint n))\<rparr>))"
  using assms by (simp add: spill_def Let_def suffix_expr_def print_reg_def)

lemma fill_none: "fill None r st = Some st"
  by (simp add: fill_def)

lemma fill_some:
  assumes "Type_size (type_of y) = Some n" "print_expr st (p, y) = Some src"
  shows "fill (Some (p, y)) r st =
     Some (emit (Instr (''mov'' @ suffix n) [src, Reg (reg_name r (ucast n))]) st)"
  using assms by (simp add: fill_def suffix_expr_def)

lemma holding_b_fields: "node holding_b rax = Some ([1], Identifier b_symbol)" "gen_offset holding_b = - 8"
  "reg holding_b [0] = None"
  by (simp_all add: holding_b_def assign_def initial_def)

text \<open>
  Claim C4.  \<open>load(e, r)\<close> does nothing when \<open>r\<close> holds \<open>e\<close>.  Otherwise it writes
  one \<open>mov\<close> from \<open>r\<close> to a new frame slot, below all slots in use and negative,
  which becomes the offset of the node that \<open>r\<close> held, exactly when \<open>r\<close> held a node;
  then one \<open>mov\<close> of \<open>e\<close> into \<open>r\<close> exactly when \<open>e\<close> is not null; and in the end
  \<open>r\<close> holds \<open>e\<close> and \<open>e\<close> is in \<open>r\<close>.  The generator runs with an offset that is
  not positive and holds nodes of scalar type in registers; the operand of \<open>e\<close> and
  its size must be defined for \<open>load\<close> to return.
\<close>

theorem load_effect:
  assumes "\<forall>q x. node st r = Some (q, x) \<longrightarrow> isScalar (type_of x)"
    and "\<forall>p y. e = Some (p, y) \<longrightarrow>
           (\<exists>n. Type_size (type_of y) = Some n) \<and> (\<exists>src. print_expr st (p, y) = Some src)"
    and "gen_offset st \<le> 0" and "- (2 ^ 31) + 8 \<le> gen_offset st"
  shows "(map_option fst (node st r) = map_option fst e \<longrightarrow> load e r st = Some st) \<and>
    (map_option fst (node st r) \<noteq> map_option fst e \<longrightarrow>
      (\<exists>st' spills loads.
         load e r st = Some st' \<and> out st' = out st @ spills @ loads \<and>
         (node st r = None \<longrightarrow> spills = [] \<and> gen_offset st' = gen_offset st) \<and>
         (\<forall>q x. node st r = Some (q, x) \<longrightarrow>
            (\<exists>n. Type_size (type_of x) = Some n \<and>
                 spills = [Instr (''mov'' @ suffix n)
                             [Reg (reg_name r (ucast n)), Frame (gen_offset st')]] \<and>
                 gen_offset st' = gen_offset st - uint n \<and>
                 expr_offset st' q = gen_offset st' \<and>
                 gen_offset st' < 0 \<and> gen_offset st' < gen_offset st)) \<and>
         (e = None \<longrightarrow> loads = []) \<and>
         (\<forall>p y. e = Some (p, y) \<longrightarrow>
            (\<exists>n src. Type_size (type_of y) = Some n \<and> print_expr st (p, y) = Some src \<and>
                 loads = [Instr (''mov'' @ suffix n) [src, Reg (reg_name r (ucast n))]] \<and>
                 reg st' p = Some r)) \<and>
         node st' r = e))"
proof (intro conjI impI)
  assume "map_option fst (node st r) = map_option fst e"
  then show "load e r st = Some st" by (simp add: load_def)
next
  assume ne: "map_option fst (node st r) \<noteq> map_option fst e"
  obtain st1 spills where sp: "spill r st = Some st1" "out st1 = out st @ spills"
    "reg st1 = reg st" "node st1 = node st"
    "node st r = None \<longrightarrow> spills = [] \<and> st1 = st"
    "\<forall>q x. node st r = Some (q, x) \<longrightarrow>
        (\<exists>n. Type_size (type_of x) = Some n \<and>
           spills = [Instr (''mov'' @ suffix n) [Reg (reg_name r (ucast n)), Frame (gen_offset st1)]] \<and>
           gen_offset st1 = gen_offset st - uint n \<and>
           expr_offset st1 = (expr_offset st)(q := gen_offset st1) \<and>
           gen_offset st1 < 0 \<and> gen_offset st1 < gen_offset st)"
  proof (cases "node st r")
    case None
    show ?thesis using that[of st "[]"] None by (simp add: spill_free)
  next
    case (Some a)
    obtain q x where a: "a = (q, x)" by (cases a)
    have sc: "isScalar (type_of x)" using assms(1) Some a by simp
    obtain n where n: "Type_size (type_of x) = Some n" using scalar_size_defined[OF sc] by blast
    have m: "uint n = 1 \<or> uint n = 4 \<or> uint n = 8" using scalar_size_cases[OF sc n] .
    have off: "int32 (gen_offset st - uint n) = gen_offset st - uint n"
      using m assms(3,4) by (intro int32_id) auto
    show ?thesis
      using that[of "emit (Instr (''mov'' @ suffix n) [Reg (reg_name r (ucast n)), Frame (gen_offset st - uint n)])
            (st\<lparr>gen_offset := gen_offset st - uint n,
                expr_offset := (expr_offset st)(q := gen_offset st - uint n)\<rparr>)"
            "[Instr (''mov'' @ suffix n) [Reg (reg_name r (ucast n)), Frame (gen_offset st - uint n)]]"]
        spill_held[of st r q x n] Some a n off m assms(3)
      by (auto simp: emit_def)
  qed
  obtain st2 loads where fl: "fill e r st1 = Some st2" "out st2 = out st1 @ loads"
    "reg st2 = reg st1" "node st2 = node st1" "expr_offset st2 = expr_offset st1"
    "gen_offset st2 = gen_offset st1"
    "e = None \<longrightarrow> loads = []"
    "\<forall>p y. e = Some (p, y) \<longrightarrow>
            (\<exists>n src. Type_size (type_of y) = Some n \<and> print_expr st (p, y) = Some src \<and>
                 loads = [Instr (''mov'' @ suffix n) [src, Reg (reg_name r (ucast n))]])"
  proof (cases e)
    case None
    show ?thesis using that[of st1 "[]"] None by (simp add: fill_none)
  next
    case (Some a)
    obtain p y where a: "a = (p, y)" by (cases a)
    obtain n src where n: "Type_size (type_of y) = Some n" and src: "print_expr st (p, y) = Some src"
      using assms(2) Some a by blast
    have "expr_offset st1 p = expr_offset st p"
      using sp(5,6) ne Some a by (cases "node st r") auto
    then have "print_expr st1 (p, y) = Some src"
      using print_expr_cong[OF sp(3,4), of p y] src by simp
    then show ?thesis
      using that[of "emit (Instr (''mov'' @ suffix n) [src, Reg (reg_name r (ucast n))]) st1"
                    "[Instr (''mov'' @ suffix n) [src, Reg (reg_name r (ucast n))]]"]
        fill_some[OF n, of st1 p src r] Some a n src by simp
  qed
  let ?st' = "assign e (Some r) st2"
  have ld: "load e r st = Some ?st'" using ne sp(1) fl(1) by (simp add: load_def)
  have bound: "node ?st' r = e \<and> (\<forall>p y. e = Some (p, y) \<longrightarrow> reg ?st' p = Some r)"
  proof (cases e)
    case None
    then show ?thesis by (simp add: assign_detach_reg)
  next
    case (Some a)
    obtain p y where a: "a = (p, y)" by (cases a)
    have "map_option fst (node st2 r) \<noteq> Some p" using ne Some a fl(4) sp(4) by simp
    then show ?thesis using assign_binds[of st2 r p y] Some a by simp
  qed
  show "\<exists>st' spills loads.
         load e r st = Some st' \<and> out st' = out st @ spills @ loads \<and>
         (node st r = None \<longrightarrow> spills = [] \<and> gen_offset st' = gen_offset st) \<and>
         (\<forall>q x. node st r = Some (q, x) \<longrightarrow>
            (\<exists>n. Type_size (type_of x) = Some n \<and>
                 spills = [Instr (''mov'' @ suffix n)
                             [Reg (reg_name r (ucast n)), Frame (gen_offset st')]] \<and>
                 gen_offset st' = gen_offset st - uint n \<and>
                 expr_offset st' q = gen_offset st' \<and>
                 gen_offset st' < 0 \<and> gen_offset st' < gen_offset st)) \<and>
         (e = None \<longrightarrow> loads = []) \<and>
         (\<forall>p y. e = Some (p, y) \<longrightarrow>
            (\<exists>n src. Type_size (type_of y) = Some n \<and> print_expr st (p, y) = Some src \<and>
                 loads = [Instr (''mov'' @ suffix n) [src, Reg (reg_name r (ucast n))]] \<and>
                 reg st' p = Some r)) \<and>
         node st' r = e"
    apply (rule exI[of _ ?st'], rule exI[of _ spills], rule exI[of _ loads])
    using ld sp(2,5,6) fl(2,5,6,7,8) bound by (auto simp: fun_upd_apply)
qed

theorem load_effect_witness:
  "node holding_b rax = Some ([1], Identifier b_symbol) \<and>
   isScalar (type_of (Identifier b_symbol)) \<and>
   (\<exists>n. Type_size (type_of (Identifier a_symbol)) = Some n) \<and>
   (\<exists>src. print_expr holding_b ([0], Identifier a_symbol) = Some src) \<and>
   gen_offset holding_b \<le> 0 \<and> - (2 ^ 31) + 8 \<le> gen_offset holding_b \<and>
   map_option fst (node holding_b rax) \<noteq> map_option fst (Some ([0], Identifier a_symbol)) \<and>
   (\<exists>st' spills loads.
      load (Some ([0], Identifier a_symbol)) rax holding_b = Some st' \<and>
      out st' = out holding_b @ spills @ loads \<and>
      spills = [Instr ''movl'' [Reg ''%eax'', Frame (- 12)]] \<and>
      loads = [Instr ''movl'' [Global ''a'', Reg ''%eax'']] \<and>
      reg st' [0] = Some rax \<and>
      node st' rax = Some ([0], Identifier a_symbol))"
proof -
  have h1: "\<forall>q x. node holding_b rax = Some (q, x) \<longrightarrow> isScalar (type_of x)"
    by (simp add: holding_b_fields b_symbol_def new_Symbol_def integer_def isScalar_def)
  have n: "Type_size (type_of (Identifier a_symbol)) = Some 4"
    by (simp add: a_symbol_def new_Symbol_def integer_def unit_size_def SIZEOF_INT_def)
  have src: "print_expr holding_b ([0], Identifier a_symbol) = Some (Global ''a'')"
    by (simp add: print_expr_def holding_b_fields a_symbol_def new_Symbol_def)
  have h2: "\<forall>p y. Some ([0], Identifier a_symbol) = Some (p, y) \<longrightarrow>
           (\<exists>n. Type_size (type_of y) = Some n) \<and> (\<exists>src. print_expr holding_b (p, y) = Some src)"
    using n src by auto
  have h3: "gen_offset holding_b \<le> 0" and h4: "- (2 ^ 31) + 8 \<le> gen_offset holding_b"
    by (simp_all add: holding_b_fields)
  have ne: "map_option fst (node holding_b rax) \<noteq> map_option fst (Some ([0], Identifier a_symbol))"
    by (simp add: holding_b_fields)
  have nb: "Type_size (type_of (Identifier b_symbol)) = Some 4"
    by (simp add: b_symbol_def new_Symbol_def integer_def unit_size_def SIZEOF_INT_def)
  note L = load_effect[OF h1 h2 h3 h4, THEN conjunct2, rule_format, OF ne]
  from L obtain st' spills loads where r:
    "load (Some ([0], Identifier a_symbol)) rax holding_b = Some st'"
    "out st' = out holding_b @ spills @ loads"
    "\<forall>q x. node holding_b rax = Some (q, x) \<longrightarrow>
            (\<exists>n. Type_size (type_of x) = Some n \<and>
                 spills = [Instr (''mov'' @ suffix n)
                             [Reg (reg_name rax (ucast n)), Frame (gen_offset st')]] \<and>
                 gen_offset st' = gen_offset holding_b - uint n \<and>
                 expr_offset st' q = gen_offset st' \<and>
                 gen_offset st' < 0 \<and> gen_offset st' < gen_offset holding_b)"
    "\<forall>p y. Some ([0], Identifier a_symbol) = Some (p, y) \<longrightarrow>
            (\<exists>n src. Type_size (type_of y) = Some n \<and> print_expr holding_b (p, y) = Some src \<and>
                 loads = [Instr (''mov'' @ suffix n) [src, Reg (reg_name rax (ucast n))]] \<and>
                 reg st' p = Some rax)"
    "node st' rax = Some ([0], Identifier a_symbol)"
    by (elim exE conjE) (rule that; assumption)
  have sp: "\<exists>n. Type_size (type_of (Identifier b_symbol)) = Some n \<and>
                 spills = [Instr (''mov'' @ suffix n)
                             [Reg (reg_name rax (ucast n)), Frame (gen_offset st')]] \<and>
                 gen_offset st' = gen_offset holding_b - uint n"
    using r(3)[rule_format, OF holding_b_fields(1)] by blast
  have lo: "\<exists>n src. Type_size (type_of (Identifier a_symbol)) = Some n \<and>
                 print_expr holding_b ([0], Identifier a_symbol) = Some src \<and>
                 loads = [Instr (''mov'' @ suffix n) [src, Reg (reg_name rax (ucast n))]] \<and>
                 reg st' [0] = Some rax"
    using r(4)[rule_format, OF refl] by blast
  have "spills = [Instr ''movl'' [Reg ''%eax'', Frame (- 12)]]"
    using sp holding_b_fields(2) nb by (auto simp: suffix_def reg_name_def)
  moreover have "loads = [Instr ''movl'' [Global ''a'', Reg ''%eax'']] \<and> reg st' [0] = Some rax"
    using lo n src by (auto simp: suffix_def reg_name_def)
  ultimately have "\<exists>st' spills loads.
      load (Some ([0], Identifier a_symbol)) rax holding_b = Some st' \<and>
      out st' = out holding_b @ spills @ loads \<and>
      spills = [Instr ''movl'' [Reg ''%eax'', Frame (- 12)]] \<and>
      loads = [Instr ''movl'' [Global ''a'', Reg ''%eax'']] \<and>
      reg st' [0] = Some rax \<and>
      node st' rax = Some ([0], Identifier a_symbol)"
    using r(1,2,5) by (intro exI[of _ st'] exI[of _ spills] exI[of _ loads]) simp
  moreover have "isScalar (type_of (Identifier b_symbol))"
    by (simp add: b_symbol_def new_Symbol_def integer_def isScalar_def)
  ultimately show ?thesis
    using holding_b_fields(1) n src h3 h4 ne by (intro conjI) (assumption | rule exI | simp)+
qed

text \<open>
  Claim C5 fails on the source.  With all registers free, the generator of \<open>a < b\<close>
  binds the result to \<open>%rax\<close>, the register that the first \<open>getreg\<close> returns; the
  second \<open>getreg\<close> returns \<open>%rdi\<close>, since \<open>%rax\<close> is taken by then, and \<open>setl\<close>
  writes to \<open>%dil\<close>.
\<close>

theorem LessThan_byte_register:
  "map_option fst (getreg (initial 0)) = Some rax \<and>
   map_option fst (getreg (assign (Some ([], Binary LessThan (Identifier a_symbol) (Identifier b_symbol) integer))
                             (Some rax) (initial 0))) = Some rdi \<and>
   map_option (\<lambda>st. (reg st [], out st))
     (generate (Binary LessThan (Identifier a_symbol) (Identifier b_symbol) integer) [] (initial 0)) =
     Some (Some rax,
           [Instr ''movl'' [Global ''a'', Reg ''%eax''],
            Instr ''cmpl'' [Global ''b'', Reg ''%eax''],
            Instr ''setl'' [Reg ''%dil''],
            Instr ''movzbl'' [Reg ''%dil'', Reg ''%eax'']])"
  by code_simp

text \<open>
  Claim C7 fails on the source.  In \<open>(a % b) / c\<close> the left operand of the division
  is in \<open>%rdx\<close> when \<open>Divide::generate\<close> reaches its loads: it is not loaded into
  \<open>%rax\<close>, since it is in a register, and is then spilled from \<open>%rdx\<close>; the
  division is written with the quotient of \<open>a\<close> and \<open>b\<close> in \<open>%rax\<close>.
\<close>

theorem Divide_left_operand:
  "map_option out
     (generate (Binary Divide (Binary Remainder (Identifier a_symbol) (Identifier b_symbol) integer)
                  (Identifier c_symbol) integer) [] (initial 0)) =
     Some [Instr ''movl'' [Global ''a'', Reg ''%eax''],
           Instr ''movl'' [Global ''b'', Reg ''%ecx''],
           Instr ''cltd'' [],
           Instr ''idivl'' [Reg ''%ecx''],
           Instr ''movl'' [Reg ''%edx'', Frame (- 4)],
           Instr ''movl'' [Global ''c'', Reg ''%ecx''],
           Instr ''cltd'' [],
           Instr ''idivl'' [Reg ''%ecx'']]"
  by code_simp

lemma rsp_change_mov [simp]: "rsp_change (Instr (''mov'' @ suffix n) ops) = 0"
  by (simp add: suffix_def)

lemma suffix_exprD: "suffix_expr e = Some sfx \<Longrightarrow> \<exists>n. sfx = suffix n"
  by (auto simp: suffix_expr_def)

lemma spill_out:
  "spill r st = Some st' \<Longrightarrow> \<exists>xs. out st' = out st @ xs \<and> (\<forall>i \<in> set xs. rsp_change i = 0)"
  by (auto simp: spill_def Let_def dest!: suffix_exprD split: option.splits prod.splits)

lemma fill_out:
  "fill e r st = Some st' \<Longrightarrow> \<exists>xs. out st' = out st @ xs \<and> (\<forall>i \<in> set xs. rsp_change i = 0)"
  by (auto simp: fill_def dest!: suffix_exprD split: option.splits prod.splits)

lemma load_out:
  assumes "load e r st = Some st'"
  shows "\<exists>xs. out st' = out st @ xs \<and> (\<forall>i \<in> set xs. rsp_change i = 0)"
proof (cases "map_option fst (node st r) \<noteq> map_option fst e")
  case False
  then show ?thesis using assms by (simp add: load_def)
next
  case True
  then obtain st1 st2 where s: "spill r st = Some st1" "fill e r st1 = Some st2" "st' = assign e (Some r) st2"
    using assms by (auto simp: load_def split: option.splits)
  obtain xs where xs: "out st1 = out st @ xs" "\<forall>i \<in> set xs. rsp_change i = 0"
    using spill_out[OF s(1)] by blast
  obtain ys where ys: "out st2 = out st1 @ ys" "\<forall>i \<in> set ys. rsp_change i = 0"
    using fill_out[OF s(2)] by blast
  show ?thesis using xs ys s(3) by (intro exI[of _ "xs @ ys"]) auto
qed

lemma sign_extend_out:
  "sign_extend_byte_arg arg st = Some st' \<Longrightarrow>
   \<exists>xs. out st' = out st @ xs \<and> (\<forall>i \<in> set xs. rsp_change i = 0)"
  by (auto simp: sign_extend_byte_arg_def split: option.splits prod.splits if_splits)

lemma spill_all_out:
  "spill_all rs st = Some st' \<Longrightarrow>
   \<exists>xs. out st' = out st @ xs \<and> (\<forall>i \<in> set xs. rsp_change i = 0)"
proof (induction rs arbitrary: st)
  case Nil
  then show ?case by simp
next
  case (Cons r rs)
  then obtain st1 where s: "load None r st = Some st1" "spill_all rs st1 = Some st'"
    by (auto split: option.splits)
  obtain xs where xs: "out st1 = out st @ xs" "\<forall>i \<in> set xs. rsp_change i = 0"
    using load_out[OF s(1)] by blast
  obtain ys where ys: "out st' = out st1 @ ys" "\<forall>i \<in> set ys. rsp_change i = 0"
    using Cons.IH[OF s(2)] by blast
  show ?case using xs ys by (intro exI[of _ "xs @ ys"]) auto
qed


lemma quiet_no_push: "rsp_change i = 0 \<Longrightarrow> i \<noteq> Instr ''pushq'' [Reg ''%rax'']"
  by (auto simp: SIZEOF_REG_def)

lemma sum_quiet: "\<forall>i \<in> set xs. rsp_change i = 0 \<Longrightarrow> sum_list (map rsp_change xs) = 0"
  by (induction xs) auto

lemma filter_quiet:
  "\<forall>i \<in> set xs. rsp_change i = 0 \<Longrightarrow> filter (\<lambda>i. i = Instr ''pushq'' [Reg ''%rax'']) xs = []"
  by (induction xs) (auto simp: SIZEOF_REG_def)

lemma move_args_out:
  "move_args p args k (nb, st) = Some (nb', st') \<Longrightarrow>
   \<exists>xs. out st' = out st @ xs \<and> (\<forall>i \<in> set xs. rsp_change i \<le> 0) \<and>
        sum_list (map rsp_change xs) = - (8 * int (k - NUM_PARAM_REGS)) \<and>
        length (filter (\<lambda>i. i = Instr ''pushq'' [Reg ''%rax'']) xs) = k - NUM_PARAM_REGS \<and>
        nb' = nb + word_of_int (8 * int (k - NUM_PARAM_REGS))"
proof (induction k arbitrary: nb st)
  case 0
  then show ?case by simp
next
  case (Suc i)
  let ?arg = "(p @ [i], args ! i)"
  show ?case
  proof (cases "i \<ge> NUM_PARAM_REGS")
    case True
    then obtain st1 st2 where s: "load (Some ?arg) rax st = Some st1"
      "sign_extend_byte_arg ?arg st1 = Some st2"
      "move_args p args i (nb + word_of_int PARAM_ALIGNMENT,
          assign (Some ?arg) None (emit (Instr ''pushq'' [Reg ''%rax'']) st2)) = Some (nb', st')"
      using Suc.prems by (auto simp: Let_def split: option.splits)
    obtain xs where xs: "out st1 = out st @ xs" "\<forall>i \<in> set xs. rsp_change i = 0"
      using load_out[OF s(1)] by blast
    obtain ys where ys: "out st2 = out st1 @ ys" "\<forall>i \<in> set ys. rsp_change i = 0"
      using sign_extend_out[OF s(2)] by blast
    obtain zs where zs: "out st' = out st2 @ [Instr ''pushq'' [Reg ''%rax'']] @ zs"
      "\<forall>i \<in> set zs. rsp_change i \<le> 0"
      "sum_list (map rsp_change zs) = - (8 * int (i - NUM_PARAM_REGS))"
      "length (filter (\<lambda>i. i = Instr ''pushq'' [Reg ''%rax'']) zs) = i - NUM_PARAM_REGS"
      "nb' = nb + word_of_int PARAM_ALIGNMENT + word_of_int (8 * int (i - NUM_PARAM_REGS))"
      using Suc.IH[OF s(3)] by auto
    have k: "int (Suc i - NUM_PARAM_REGS) = int (i - NUM_PARAM_REGS) + 1"
      "Suc i - NUM_PARAM_REGS = Suc (i - NUM_PARAM_REGS)"
      using True by auto
    have nb: "nb' = nb + word_of_int (8 * int (Suc i - NUM_PARAM_REGS))"
      using zs(5) k(1) by (simp add: PARAM_ALIGNMENT_def algebra_simps)
    let ?ws = "xs @ ys @ [Instr ''pushq'' [Reg ''%rax'']] @ zs"
    have o: "out st' = out st @ ?ws" using xs(1) ys(1) zs(1) by simp
    have le: "\<forall>i \<in> set ?ws. rsp_change i \<le> 0"
      using xs(2) ys(2) zs(2) by (auto simp: SIZEOF_REG_def)
    have su: "sum_list (map rsp_change ?ws) = - (8 * int (Suc i - NUM_PARAM_REGS))"
      using sum_quiet[OF xs(2)] sum_quiet[OF ys(2)] zs(3) k(1) by (simp add: SIZEOF_REG_def)
    have fl: "length (filter (\<lambda>i. i = Instr ''pushq'' [Reg ''%rax'']) ?ws) = Suc i - NUM_PARAM_REGS"
      using filter_quiet[OF xs(2)] filter_quiet[OF ys(2)] zs(4) k(2) by simp
    show ?thesis using o le su fl nb by blast
  next
    case False
    then obtain st1 st2 where s: "load (Some ?arg) (parameters ! i) st = Some st1"
      "sign_extend_byte_arg ?arg st1 = Some st2"
      "move_args p args i (nb, assign (Some ?arg) None st2) = Some (nb', st')"
      using Suc.prems by (auto simp: Let_def split: option.splits)
    obtain xs where xs: "out st1 = out st @ xs" "\<forall>i \<in> set xs. rsp_change i = 0"
      using load_out[OF s(1)] by blast
    obtain ys where ys: "out st2 = out st1 @ ys" "\<forall>i \<in> set ys. rsp_change i = 0"
      using sign_extend_out[OF s(2)] by blast
    obtain zs where zs: "out st' = out st2 @ zs"
      "\<forall>i \<in> set zs. rsp_change i \<le> 0"
      "sum_list (map rsp_change zs) = - (8 * int (i - NUM_PARAM_REGS))"
      "length (filter (\<lambda>i. i = Instr ''pushq'' [Reg ''%rax'']) zs) = i - NUM_PARAM_REGS"
      "nb' = nb + word_of_int (8 * int (i - NUM_PARAM_REGS))"
      using Suc.IH[OF s(3)] by auto
    have k: "Suc i - NUM_PARAM_REGS = 0" "i - NUM_PARAM_REGS = 0" using False by auto
    let ?ws = "xs @ ys @ zs"
    have o: "out st' = out st @ ?ws" using xs(1) ys(1) zs(1) by simp
    have le: "\<forall>i \<in> set ?ws. rsp_change i \<le> 0"
      using xs(2) ys(2) zs(2) by auto
    have su: "sum_list (map rsp_change ?ws) = - (8 * int (Suc i - NUM_PARAM_REGS))"
      using sum_quiet[OF xs(2)] sum_quiet[OF ys(2)] zs(3) k by simp
    have fl: "length (filter (\<lambda>i. i = Instr ''pushq'' [Reg ''%rax'']) ?ws) = Suc i - NUM_PARAM_REGS"
      using filter_quiet[OF xs(2)] filter_quiet[OF ys(2)] zs(4) k by simp
    have nb: "nb' = nb + word_of_int (8 * int (Suc i - NUM_PARAM_REGS))"
      using zs(5) k by simp
    show ?thesis using o le su fl nb by blast
  qed
qed

lemma align_params:
  assumes "0 < j" "j < 2 ^ 27"
  shows "align (int32 (8 * j)) + 8 * j = round_up (8 * j) STACK_ALIGNMENT"
    and "align (int32 (8 * j)) = 0 \<or> align (int32 (8 * j)) = 8"
proof -
  have i: "int32 (8 * j) = 8 * j" using assms by (intro int32_id) auto
  have c: "c_rem (8 * j) 16 = (8 * j) mod 16" "c_rem \<bar>8 * j\<bar> 16 = (8 * j) mod 16"
    using assms(1) by (simp_all add: c_rem_def)
  obtain h where h: "j = 2 * h \<or> j = 2 * h + 1" by (metis even_iff_mod_2_eq_zero odd_iff_mod_2_eq_one mult.commute div_mult_mod_eq add.right_neutral)
  have a: "align (8 * j) = (if (8 * j) mod 16 = 0 then 0 else 16 - (8 * j) mod 16)"
    by (simp add: align_def STACK_ALIGNMENT_def c)
  from h show "align (int32 (8 * j)) + 8 * j = round_up (8 * j) STACK_ALIGNMENT"
  proof
    assume "j = 2 * h"
    then have e: "8 * j = 16 * h" by simp
    have "align (8 * j) = 0" using a e by simp
    then show ?thesis using i e by (simp add: round_up_def STACK_ALIGNMENT_def)
  next
    assume "j = 2 * h + 1"
    then have e: "8 * j = 16 * h + 8" by simp
    have "align (8 * j) = 8" using a e by simp
    then show ?thesis using i e by (simp add: round_up_def STACK_ALIGNMENT_def)
  qed
  from h show "align (int32 (8 * j)) = 0 \<or> align (int32 (8 * j)) = 8"
  proof
    assume "j = 2 * h"
    then have e: "8 * j = 16 * h" by simp
    have "align (8 * j) = 0" using a e by simp
    then show ?thesis using i by simp
  next
    assume "j = 2 * h + 1"
    then have e: "8 * j = 16 * h + 8" by simp
    have "align (8 * j) = 8" using a e by simp
    then show ?thesis using i by simp
  qed
qed

lemma num_bytes_uint:
  assumes "0 \<le> a" "0 \<le> b" "a + b < 2 ^ 32"
  shows "uint ((word_of_int a :: 32 word) + word_of_int b) = a + b"
proof -
  have "uint ((word_of_int a :: 32 word) + word_of_int b) = uint (word_of_int (a + b) :: 32 word)"
    by (simp only: wi_hom_add)
  also have "\<dots> = take_bit 32 (a + b)"
    by (simp only: uint_word_of_int_eq len_bit0 len_num1 mult_1_right) simp
  also have "\<dots> = a + b"
    using assms by (intro take_bit_int_eq_self) auto
  finally show ?thesis .
qed

lemma call_adjust_out:
  assumes "NUM_PARAM_REGS < n" "n < 2 ^ 27" "call_adjust n st = (nb0, st1)"
  shows "\<exists>pad xs. nb0 = word_of_int pad \<and> (pad = 0 \<or> pad = 8) \<and>
           pad + 8 * int (n - NUM_PARAM_REGS) =
             round_up (int (n - NUM_PARAM_REGS) * PARAM_ALIGNMENT) STACK_ALIGNMENT \<and>
           out st1 = out st @ xs \<and> (\<forall>i \<in> set xs. rsp_change i \<le> 0) \<and>
           sum_list (map rsp_change xs) = - pad \<and>
           filter (\<lambda>i. i = Instr ''pushq'' [Reg ''%rax'']) xs = []"
proof -
  let ?j = "int (n - NUM_PARAM_REGS)"
  let ?pad = "align (int32 (8 * ?j))"
  have j: "0 < ?j" "?j < 2 ^ 27" using assms(1,2) by auto
  have p: "?pad = 0 \<or> ?pad = 8" using align_params(2)[OF j] .
  have r: "?pad + 8 * ?j = round_up (?j * PARAM_ALIGNMENT) STACK_ALIGNMENT"
    using align_params(1)[OF j] by (simp add: PARAM_ALIGNMENT_def mult.commute)
  have nb0: "nb0 = word_of_int ?pad"
    using assms by (auto simp: call_adjust_def Let_def PARAM_ALIGNMENT_def mult.commute split: if_splits)
  from p show ?thesis
  proof
    assume z: "?pad = 0"
    then have "st1 = st" using assms
      by (auto simp: call_adjust_def Let_def PARAM_ALIGNMENT_def mult.commute split: if_splits)
    then show ?thesis using z r nb0 by (intro exI[of _ 0] exI[of _ "[]"]) simp
  next
    assume e: "?pad = 8"
    then have "st1 = emit (Instr ''subq'' [Imm 8, Reg ''%rsp'']) st" using assms
      by (auto simp: call_adjust_def Let_def PARAM_ALIGNMENT_def mult.commute split: if_splits)
    then show ?thesis using e r nb0
      by (intro exI[of _ 8] exI[of _ "[Instr ''subq'' [Imm 8, Reg ''%rsp'']]"]) simp
  qed
qed

text \<open>
  Claim C6.  The generator of a call with more than \<open>NUM_PARAM_REGS\<close> arguments
  writes, after the code of the arguments, lines that lower \<open>%rsp\<close> (the \<open>subq\<close> of
  the padding and one \<open>pushq\<close> for each argument beyond the registers) or leave it
  alone, then the \<open>call\<close>, then one \<open>addq\<close>.  The bytes by which \<open>%rsp\<close> is lowered
  before the \<open>call\<close> are the number of arguments beyond the registers times
  \<open>PARAM_ALIGNMENT\<close>, rounded up to a multiple of \<open>STACK_ALIGNMENT\<close>, and the
  \<open>addq\<close> adds the same number.
\<close>

theorem call_stack_adjustment:
  assumes "NUM_PARAM_REGS < length args" and "length args < 2 ^ 27"
    and "call_body this ident args st = Some st'"
  shows "\<exists>pre total.
           out st' = out st @ pre @
             [Instr ''call'' [Global (name ident)], Instr ''addq'' [Imm total, Reg ''%rsp'']] \<and>
           (\<forall>i \<in> set pre. rsp_change i \<le> 0) \<and>
           sum_list (map rsp_change pre) = - total \<and>
           length (filter (\<lambda>i. i = Instr ''pushq'' [Reg ''%rax'']) pre) =
             length args - NUM_PARAM_REGS \<and>
           total = round_up (int (length args - NUM_PARAM_REGS) * PARAM_ALIGNMENT) STACK_ALIGNMENT"
proof -
  let ?n = "length args"
  let ?j = "int (?n - NUM_PARAM_REGS)"
  obtain nb0 st1 where ca: "call_adjust ?n st = (nb0, st1)" by (cases "call_adjust ?n st")
  obtain nb st2 where ma: "move_args (fst this) args ?n (nb0, st1) = Some (nb, st2)"
    using assms(3) ca by (auto simp: call_body_def split: option.splits)
  obtain st3 where sa: "spill_all registers st2 = Some st3"
    using assms(3) ca ma by (auto simp: call_body_def split: option.splits)
  obtain s n variadic types where ft: "stype ident = Function_type s n variadic types"
    using assms(3) ca ma sa by (auto simp: call_body_def split: option.splits type.splits)
  let ?vs = "if variadic then [Instr ''movl'' [Imm 0, Reg ''%eax'']] else []"
  let ?as = "if nb > 0 then [Instr ''addq'' [Imm (uint nb), Reg ''%rsp'']] else []"
  have o': "out st' = out st3 @ ?vs @ [Instr ''call'' [Global (name ident)]] @ ?as"
    using assms(3) ca ma sa ft by (auto simp: call_body_def Let_def)
  obtain pad xs where ad: "nb0 = word_of_int pad" "pad = 0 \<or> pad = 8"
    "pad + 8 * ?j = round_up (?j * PARAM_ALIGNMENT) STACK_ALIGNMENT"
    "out st1 = out st @ xs" "\<forall>i \<in> set xs. rsp_change i \<le> 0"
    "sum_list (map rsp_change xs) = - pad"
    "filter (\<lambda>i. i = Instr ''pushq'' [Reg ''%rax'']) xs = []"
    using call_adjust_out[OF assms(1,2) ca] by blast
  obtain ys where mv: "out st2 = out st1 @ ys" "\<forall>i \<in> set ys. rsp_change i \<le> 0"
    "sum_list (map rsp_change ys) = - (8 * ?j)"
    "length (filter (\<lambda>i. i = Instr ''pushq'' [Reg ''%rax'']) ys) = ?n - NUM_PARAM_REGS"
    "nb = nb0 + word_of_int (8 * ?j)"
    using move_args_out[OF ma] by blast
  obtain zs where sp: "out st3 = out st2 @ zs" "\<forall>i \<in> set zs. rsp_change i = 0"
    using spill_all_out[OF sa] by blast
  have jb: "0 < ?j" "?j < 2 ^ 27" using assms(1,2) by auto
  have total: "uint nb = pad + 8 * ?j"
    unfolding mv(5) ad(1) using ad(2) jb by (intro num_bytes_uint) auto
  have pos: "nb > 0" using total ad(2) jb by (auto simp: word_less_def)
  let ?pre = "xs @ ys @ zs @ ?vs"
  have 1: "out st' = out st @ ?pre @
             [Instr ''call'' [Global (name ident)], Instr ''addq'' [Imm (uint nb), Reg ''%rsp'']]"
    using o' ad(4) mv(1) sp(1) pos by simp
  have 2: "\<forall>i \<in> set ?pre. rsp_change i \<le> 0"
    using ad(5) mv(2) sp(2) by auto
  have 3: "sum_list (map rsp_change ?pre) = - uint nb"
    using ad(6) mv(3) sum_quiet[OF sp(2)] total by simp
  have 4: "length (filter (\<lambda>i. i = Instr ''pushq'' [Reg ''%rax'']) ?pre) = ?n - NUM_PARAM_REGS"
    using ad(7) mv(4) filter_quiet[OF sp(2)] by simp
  have 5: "uint nb = round_up (?j * PARAM_ALIGNMENT) STACK_ALIGNMENT"
    using total ad(3) by simp
  show ?thesis using 1 2 3 4 5 by blast
qed

lemma call_example:
  "map_option out (call_body ([], Call g_symbol seven_args longint) g_symbol seven_args (initial (- 8))) =
     Some [Instr ''subq'' [Imm 8, Reg ''%rsp''],
           Instr ''movq'' [Frame (- 8), Reg ''%rax''],
           Instr ''pushq'' [Reg ''%rax''],
           Instr ''movq'' [Frame (- 8), Reg ''%r9''],
           Instr ''movq'' [Frame (- 8), Reg ''%r8''],
           Instr ''movq'' [Frame (- 8), Reg ''%rcx''],
           Instr ''movq'' [Frame (- 8), Reg ''%rdx''],
           Instr ''movq'' [Frame (- 8), Reg ''%rsi''],
           Instr ''movq'' [Frame (- 8), Reg ''%rdi''],
           Instr ''call'' [Global ''g''],
           Instr ''addq'' [Imm 16, Reg ''%rsp'']]"
  by code_simp

theorem call_stack_adjustment_witness:
  "NUM_PARAM_REGS < length seven_args \<and> length seven_args < 2 ^ 27 \<and>
   (\<exists>st' pre.
      call_body ([], Call g_symbol seven_args longint) g_symbol seven_args (initial (- 8)) = Some st' \<and>
      out st' = out (initial (- 8)) @ pre @
        [Instr ''call'' [Global (name g_symbol)], Instr ''addq'' [Imm 16, Reg ''%rsp'']] \<and>
      sum_list (map rsp_change pre) = - 16 \<and>
      length (filter (\<lambda>i. i = Instr ''pushq'' [Reg ''%rax'']) pre) = 1)"
proof -
  have h1: "NUM_PARAM_REGS < length seven_args" by (simp add: NUM_PARAM_REGS_def seven_args_def)
  have h2: "length seven_args < 2 ^ 27" by (simp add: seven_args_def)
  obtain st' where h3:
    "call_body ([], Call g_symbol seven_args longint) g_symbol seven_args (initial (- 8)) = Some st'"
    using call_example by (cases "call_body ([], Call g_symbol seven_args longint) g_symbol seven_args (initial (- 8))") auto
  have r: "round_up (int (length seven_args - NUM_PARAM_REGS) * PARAM_ALIGNMENT) STACK_ALIGNMENT = 16"
    by (simp add: round_up_def seven_args_def NUM_PARAM_REGS_def PARAM_ALIGNMENT_def STACK_ALIGNMENT_def)
  have l: "length seven_args - NUM_PARAM_REGS = 1" by (simp add: seven_args_def NUM_PARAM_REGS_def)
  from call_stack_adjustment[OF h1 h2 h3] obtain pre total where p:
    "out st' = out (initial (- 8)) @ pre @
        [Instr ''call'' [Global (name g_symbol)], Instr ''addq'' [Imm total, Reg ''%rsp'']]"
    "sum_list (map rsp_change pre) = - total"
    "length (filter (\<lambda>i. i = Instr ''pushq'' [Reg ''%rax'']) pre) = length seven_args - NUM_PARAM_REGS"
    "total = round_up (int (length seven_args - NUM_PARAM_REGS) * PARAM_ALIGNMENT) STACK_ALIGNMENT"
    by (elim exE conjE) (rule that; assumption)
  have "total = 16" using p(4) r by simp
  then have "call_body ([], Call g_symbol seven_args longint) g_symbol seven_args (initial (- 8)) = Some st' \<and>
      out st' = out (initial (- 8)) @ pre @
        [Instr ''call'' [Global (name g_symbol)], Instr ''addq'' [Imm 16, Reg ''%rsp'']] \<and>
      sum_list (map rsp_change pre) = - 16 \<and>
      length (filter (\<lambda>i. i = Instr ''pushq'' [Reg ''%rax'']) pre) = 1"
    using h3 p(1,2,3) l by simp
  then show ?thesis using h1 h2 by blast
qed

section \<open>Properties of the driver\<close>

lemma find_symbol_append:
  "find_symbol n scope = Some symb \<Longrightarrow> find_symbol n (scope @ rest) = Some symb"
  by (induction scope) (auto simp: find_symbol_def)

lemma find_symbol_new:
  "find_symbol n scope = None \<Longrightarrow> find_symbol n (scope @ [new_Symbol n t]) = Some (new_Symbol n t)"
  by (induction scope) (auto simp: find_symbol_def new_Symbol_def)

lemma find_symbol_name: "find_symbol n scope = Some symb \<Longrightarrow> name symb = n"
  by (induction scope) (auto simp: find_symbol_def split: if_splits)

lemma declareVariable_keeps:
  "find_symbol n (global st) = Some symb \<Longrightarrow>
   find_symbol n (global (declareVariable m t st)) = Some symb"
  by (auto simp: declareVariable_def find_symbol_append split: list.splits option.splits)

lemma declareFunction_keeps:
  "find_symbol n (global st) = Some symb \<Longrightarrow>
   find_symbol n (global (declareFunction m t st)) = Some symb"
  by (auto simp: declareFunction_def find_symbol_append split: option.splits)

lemma defineFunction_keeps:
  "find_symbol n (global st) = Some symb \<Longrightarrow>
   find_symbol n (global (defineFunction m t st)) = Some symb"
  by (auto simp: defineFunction_def Let_def intro!: declareFunction_keeps)

lemma declare_parameters_keeps:
  "find_symbol n (global st) = Some symb \<Longrightarrow>
   find_symbol n (global (declare_parameters ps st)) = Some symb"
  by (induction ps arbitrary: st) (auto simp: declareVariable_keeps)

lemma globalDeclarator_keeps:
  "find_symbol n (global st) = Some symb \<Longrightarrow>
   find_symbol n (global (globalDeclarator d st)) = Some symb"
  by (cases d)
     (auto simp: declareVariable_keeps closeScope_def openScope_def
        intro!: declareFunction_keeps declare_parameters_keeps)

lemma globalDeclarators_keeps:
  "find_symbol n (global st) = Some symb \<Longrightarrow>
   find_symbol n (global (globalDeclarators ds st)) = Some symb"
  by (induction ds arbitrary: st) (auto simp: globalDeclarator_keeps)

lemma function_checked_keeps:
  "find_symbol n (global st) = Some symb \<Longrightarrow>
   find_symbol n (global (function_checked f s ind ps v bd st)) = Some symb"
  by (auto simp: function_checked_def Let_def closeScope_def openScope_def
        intro!: defineFunction_keeps declare_parameters_keeps)

lemma generateGlobals_comm:
  "find_symbol n g = Some symb \<Longrightarrow> \<not> isFunction (stype symb) \<Longrightarrow>
   generateGlobals g = Some ls \<Longrightarrow>
   \<exists>sz. Type_size (stype symb) = Some sz \<and> Instr ''.comm'' [Global n, Imm (uint sz)] \<in> set ls"
proof (induction g arbitrary: ls)
  case Nil
  then show ?case by (simp add: find_symbol_def)
next
  case (Cons a g)
  show ?case
  proof (cases "name a = n")
    case True
    then have "symb = a" using Cons.prems(1) by (simp add: find_symbol_def)
    then show ?thesis using Cons.prems(2,3) True by (auto split: option.splits)
  next
    case False
    then have f: "find_symbol n g = Some symb" using Cons.prems(1) by (simp add: find_symbol_def)
    show ?thesis
      using Cons.IH[OF f Cons.prems(2)] Cons.prems(3)
      by (auto split: option.splits if_splits)
  qed
qed

lemma translation_unit_comm:
  "find_symbol n (global st) = Some symb \<Longrightarrow> \<not> isFunction (stype symb) \<Longrightarrow>
   translation_unit items st written = Exited EXIT_SUCCESS outp ds \<Longrightarrow>
   \<exists>sz. Type_size (stype symb) = Some sz \<and> Instr ''.comm'' [Global n, Imm (uint sz)] \<in> set outp"
proof (induction items st written rule: translation_unit.induct)
  case (1 st written)
  then show ?case
    using generateGlobals_comm[of n "global st" symb] by (auto split: option.splits)
next
  case (2 lexeme items st written)
  then show ?case by (simp add: EXIT_SUCCESS_def EXIT_FAILURE_def)
next
  case (3 items st written)
  then show ?case by simp
next
  case (4 ds items st written)
  then show ?case using globalDeclarators_keeps by auto
next
  case (5 f s ind params variadic body_diags code items st written)
  let ?st1 = "function_checked f s ind params variadic body_diags st"
  have k: "find_symbol n (global ?st1) = Some symb"
    using function_checked_keeps[OF "5.prems"(1)] .
  show ?case
  proof (cases "numerrors (diags ?st1) = 0")
    case True
    then obtain ls where c: "code = Some ls"
      "translation_unit items ?st1 (written @ ls) = Exited EXIT_SUCCESS outp ds"
      using "5.prems"(3) by (auto simp: Let_def split: option.splits)
    show ?thesis using "5.IH"(1)[OF refl True c(1) k "5.prems"(2) c(2)] .
  next
    case False
    then have c: "translation_unit items ?st1 written = Exited EXIT_SUCCESS outp ds"
      using "5.prems"(3) by (auto simp: Let_def)
    show ?thesis using "5.IH"(2)[OF refl False k "5.prems"(2) c] .
  qed
qed

lemma main_error_then_global:
  "main error_then_global =
     Exited EXIT_SUCCESS [Instr ''.comm'' [Global ''x'', Imm 4]] [(invalid_return, [])]"
  by code_simp

lemma declared_after_error:
  "translation_unit [] (declareVariable ''x'' integer checker_with_error) [] =
     Exited EXIT_SUCCESS [Instr ''.comm'' [Global ''x'', Imm 4]] [(invalid_return, [])]"
  by code_simp

text \<open>
  Claim C8, as the source has it.  \<open>main\<close> calls \<open>generateGlobals\<close> at the end of the
  input whatever the number of messages reported, and \<open>generateGlobals\<close> writes a
  \<open>.comm\<close> line for every symbol of the global scope that is not a function.  So a
  variable that is declared at the global scope under a new name, in whatever state
  of the checker, has its \<open>.comm\<close> line in the output of a run that exits with status
  0.  The text of \<open>Function::generate\<close> is not written for a function at the end of
  whose body the number of messages is not zero.
\<close>

theorem globals_emitted_whatever_errors:
  assumes "inner st = []" and "find_symbol n (global st) = None" and "\<not> isFunction t"
    and "translation_unit items (declareVariable n t st) written = Exited EXIT_SUCCESS outp ds"
  shows "(\<exists>sz. Type_size t = Some sz \<and> Instr ''.comm'' [Global n, Imm (uint sz)] \<in> set outp) \<and>
    (numerrors (diags (function_checked f s ind ps v bd st')) \<noteq> 0 \<longrightarrow>
       translation_unit (Definition f s ind ps v bd code # items') st' written' =
       translation_unit items' (function_checked f s ind ps v bd st') written')"
proof -
  have "find_symbol n (global (declareVariable n t st)) = Some (new_Symbol n t)"
    using assms(1,2) by (simp add: declareVariable_def find_symbol_new)
  moreover have "\<not> isFunction (stype (new_Symbol n t))"
    using assms(3) by (simp add: new_Symbol_def)
  ultimately have "\<exists>sz. Type_size (stype (new_Symbol n t)) = Some sz \<and>
                 Instr ''.comm'' [Global n, Imm (uint sz)] \<in> set outp"
    using assms(4) by (rule translation_unit_comm)
  then show ?thesis by (simp add: new_Symbol_def Let_def)
qed

theorem globals_emitted_whatever_errors_witness:
  "inner checker_with_error = [] \<and>
   find_symbol ''x'' (global checker_with_error) = None \<and>
   \<not> isFunction integer \<and>
   numerrors (diags checker_with_error) = 1 \<and>
   translation_unit [] (declareVariable ''x'' integer checker_with_error) [] =
     Exited EXIT_SUCCESS [Instr ''.comm'' [Global ''x'', Imm 4]] [(invalid_return, [])] \<and>
   (\<exists>sz. Type_size integer = Some sz \<and>
         Instr ''.comm'' [Global ''x'', Imm (uint sz)] \<in> set [Instr ''.comm'' [Global ''x'', Imm 4]]) \<and>
   numerrors (diags (function_checked ''f'' INT_spec 0 [] False [(invalid_return, [])]
                      \<lparr>defined = {}, global = [], inner = [], diags = []\<rparr>)) = 1 \<and>
   translation_unit [Definition ''f'' INT_spec 0 [] False [(invalid_return, [])] (Some [Instr ''ret'' []])]
       \<lparr>defined = {}, global = [], inner = [], diags = []\<rparr> [] =
     translation_unit []
       (function_checked ''f'' INT_spec 0 [] False [(invalid_return, [])]
          \<lparr>defined = {}, global = [], inner = [], diags = []\<rparr>) []"
proof -
  have h1: "inner checker_with_error = []" by (simp add: checker_with_error_def)
  have h2: "find_symbol ''x'' (global checker_with_error) = None"
    by (simp add: checker_with_error_def find_symbol_def new_Symbol_def)
  have h3: "\<not> isFunction integer" by (simp add: isFunction_def integer_def)
  have h4: "numerrors (diags checker_with_error) = 1"
    by (simp add: checker_with_error_def numerrors_def)
  have h5: "numerrors (diags (function_checked ''f'' INT_spec 0 [] False [(invalid_return, [])]
                      \<lparr>defined = {}, global = [], inner = [], diags = []\<rparr>)) = 1"
    by (simp add: function_checked_def Let_def openScope_def closeScope_def defineFunction_def
          declareFunction_def find_symbol_def numerrors_def)
  note t = globals_emitted_whatever_errors[OF h1 h2 h3 declared_after_error,
      of "''f''" INT_spec 0 "[]" False "[(invalid_return, [])]"
         "\<lparr>defined = {}, global = [], inner = [], diags = []\<rparr>"
         "Some [Instr ''ret'' []]" "[]" "[]"]
  have c1: "\<exists>sz. Type_size integer = Some sz \<and>
         Instr ''.comm'' [Global ''x'', Imm (uint sz)] \<in> set [Instr ''.comm'' [Global ''x'', Imm 4]]"
    using t by (rule conjunct1)
  have c2: "translation_unit [Definition ''f'' INT_spec 0 [] False [(invalid_return, [])] (Some [Instr ''ret'' []])]
       \<lparr>defined = {}, global = [], inner = [], diags = []\<rparr> [] =
     translation_unit []
       (function_checked ''f'' INT_spec 0 [] False [(invalid_return, [])]
          \<lparr>defined = {}, global = [], inner = [], diags = []\<rparr>) []"
    using t[THEN conjunct2] h5 by simp
  show ?thesis using h1 h2 h3 h4 declared_after_error c1 h5 c2 by (intro conjI)
qed

text \<open>
  Claim C8, as stated, fails: the body of \<open>f\<close> reports one message, and the variable
  \<open>x\<close>, declared after it, has its \<open>.comm\<close> line in the output.
\<close>

theorem comm_after_error_counterexample:
  "numerrors (diags (function_checked ''f'' INT_spec 0 [] False [(invalid_return, [])]
                      \<lparr>defined = {}, global = [], inner = [], diags = []\<rparr>)) = 1 \<and>
   main error_then_global =
     Exited EXIT_SUCCESS [Instr ''.comm'' [Global ''x'', Imm 4]] [(invalid_return, [])]"
  by code_simp

text \<open>
  A run that ends by a call of \<open>exit\<close> has the status \<open>EXIT_FAILURE\<close> when the input
  has a syntax error and the status \<open>EXIT_SUCCESS\<close> when it has none, whatever
  messages were reported.
\<close>

lemma translation_unit_status:
  "translation_unit items st written = Exited s outp ds \<Longrightarrow>
   ((\<exists>l. SyntaxError l \<in> set items) \<and> s = EXIT_FAILURE) \<or>
   ((\<forall>l. SyntaxError l \<notin> set items) \<and> s = EXIT_SUCCESS)"
proof (induction items st written rule: translation_unit.induct)
  case (1 st written)
  then show ?case by (auto split: option.splits)
next
  case (2 lexeme items st written)
  then show ?case by auto
next
  case (3 items st written)
  then show ?case by simp
next
  case (4 ds items st written)
  then show ?case by simp
next
  case (5 f s' ind params variadic body_diags code items st written)
  let ?st1 = "function_checked f s' ind params variadic body_diags st"
  have "((\<exists>l. SyntaxError l \<in> set items) \<and> s = EXIT_FAILURE) \<or>
        ((\<forall>l. SyntaxError l \<notin> set items) \<and> s = EXIT_SUCCESS)"
  proof (cases "numerrors (diags ?st1) = 0")
    case True
    then obtain ls where c: "code = Some ls"
      "translation_unit items ?st1 (written @ ls) = Exited s outp ds"
      using "5.prems" by (auto simp: Let_def split: option.splits)
    show ?thesis using "5.IH"(1)[OF refl True c(1) c(2)] .
  next
    case False
    then have c: "translation_unit items ?st1 written = Exited s outp ds"
      using "5.prems" by (auto simp: Let_def)
    show ?thesis using "5.IH"(2)[OF refl False c] .
  qed
  then show ?case by simp
qed

text \<open>What follows a syntax error in the input has no effect.\<close>

lemma translation_unit_stops:
  "translation_unit (pre @ SyntaxError l # post) st written =
   translation_unit (pre @ [SyntaxError l]) st written"
proof (induction pre arbitrary: st written)
  case Nil
  then show ?case by simp
next
  case (Cons a pre)
  show ?case
  proof (cases a)
    case (Declaration ds)
    then show ?thesis using Cons.IH by simp
  next
    case (Definition f s ind params variadic body_diags code)
    then show ?thesis using Cons.IH by (cases code) (simp_all add: Let_def)
  next
    case (SyntaxError l')
    then show ?thesis by simp
  next
    case Unending
    then show ?thesis by simp
  qed
qed

lemma main_syntax_error:
  "main [SyntaxError (Some ''@'')] =
     Exited EXIT_FAILURE [] [(''syntax error at '' @ [CHR 0x27] @ ''%s'' @ [CHR 0x27], ''@'')] \<and>
   main [SyntaxError None] = Exited EXIT_FAILURE [] [(''syntax error at end of file'', [])]"
  by code_simp

text \<open>
  Claim C10, which fails on the source.  The program
  \<open>int *p; int main(void) { *p + 1; }\<close> has no syntax error, and the checker
  builds the sum of the dereference and the literal, of type \<open>int\<close>, and reports
  nothing.  \<open>Dereference::generate\<close> has an empty body, so the dereference is in no
  register and has no place in the frame when \<open>Add::generate\<close> loads it: the
  assertion of \<open>Expression::operand\<close> fails and the generator of the statement does
  not return.  So \<open>Function::generate\<close> does not return for \<open>main\<close>, and the
  process is aborted where the claim has it exit with status \<open>EXIT_SUCCESS\<close>.
\<close>

theorem dereference_operand_aborts:
  "checkDereference (Identifier p_symbol) [] =
     Some (Unary Dereference (Identifier p_symbol) integer, []) \<and>
   checkAdd (Unary Dereference (Identifier p_symbol) integer) (Number 1 integer) [] =
     Some (dereference_plus_one, []) \<and>
   Simple_generate dereference_plus_one [] (initial 0) = None \<and>
   main [Declaration [Variable ''p'' (Scalar_type INT_spec 1)],
         Definition ''main'' INT_spec 0 [] False [] None] = Aborted"
  by code_simp

end
